theory Spec2Isabelle
  imports Main "HOL-Library.Word"
begin

section \<open>Text\<close>

text \<open>
  Text content and the rendered Markdown are JavaScript strings: sequences of UTF-16
  code units. Tag names, class tokens and attribute values are only compared and
  concatenated by the code, so they are kept as plain strings.
\<close>

type_synonym code_unit = "16 word"

type_synonym jsstring = "code_unit list"

definition js :: "string \<Rightarrow> jsstring" where
  "js s = map of_char s"

text \<open>
  The characters matched by \<^verbatim>\<open>\s\<close> in a regular expression, which are also the ones
  \<^verbatim>\<open>String.prototype.trim\<close> strips: tab, line feed, vertical tab, form feed, carriage
  return, space, no-break space, U+1680, U+2000 to U+200A, line and paragraph separator,
  U+202F, U+205F, U+3000 and the byte order mark.
\<close>

definition is_ws :: "code_unit \<Rightarrow> bool" where
  "is_ws c =
     (c \<in> set [0x9, 0xA, 0xB, 0xC, 0xD, 0x20, 0xA0, 0x1680, 0x2028, 0x2029, 0x202F,
               0x205F, 0x3000, 0xFEFF]
      \<or> (0x2000 \<le> c \<and> c \<le> 0x200A))"

definition space :: code_unit where
  "space = 0x20"

text \<open>\<^verbatim>\<open>s.trim()\<close>\<close>

definition trim :: "jsstring \<Rightarrow> jsstring" where
  "trim s = rev (dropWhile is_ws (rev (dropWhile is_ws s)))"

text \<open>\<^verbatim>\<open>s.replace(/\s+/g, ' ')\<close>: each maximal whitespace run becomes one space.\<close>

function collapse_whitespace :: "jsstring \<Rightarrow> jsstring" where
  "collapse_whitespace [] = []"
| "collapse_whitespace (c # cs) =
     (if is_ws c then space # collapse_whitespace (dropWhile is_ws cs)
      else c # collapse_whitespace cs)"
  by pat_completeness auto
termination
  by (relation "measure length") (auto simp: less_Suc_eq_le length_dropWhile_le)

text \<open>\<^verbatim>\<open>s.endsWith(t)\<close>\<close>

definition endsWith :: "string \<Rightarrow> string \<Rightarrow> bool" where
  "endsWith s t = (length t \<le> length s \<and> drop (length s - length t) s = t)"

subsection \<open>Properties of text\<close>

text \<open>Two whitespace characters next to each other somewhere in the string.\<close>

fun adjacent_ws :: "jsstring \<Rightarrow> bool" where
  "adjacent_ws (a # b # cs) = ((is_ws a \<and> is_ws b) \<or> adjacent_ws (b # cs))"
| "adjacent_ws [a] = False"
| "adjacent_ws [] = False"

text \<open>No whitespace at either end.\<close>

definition trimmed :: "jsstring \<Rightarrow> bool" where
  "trimmed s = (case s of [] \<Rightarrow> True | c # cs \<Rightarrow> \<not> is_ws c \<and> \<not> is_ws (last s))"

text \<open>
  The collapse as the specification words it: the string is cut into its maximal runs
  of whitespace and of other characters, and every whitespace run becomes one space.
\<close>

function runs :: "jsstring \<Rightarrow> jsstring list" where
  "runs [] = []"
| "runs (c # cs) =
     (if is_ws c then (c # takeWhile is_ws cs) # runs (dropWhile is_ws cs)
      else (c # takeWhile (\<lambda>x. \<not> is_ws x) cs) # runs (dropWhile (\<lambda>x. \<not> is_ws x) cs))"
  by pat_completeness auto
termination
  by (relation "measure length") (auto simp: less_Suc_eq_le length_dropWhile_le)

definition collapse_runs :: "jsstring \<Rightarrow> jsstring" where
  "collapse_runs s =
     concat (map (\<lambda>r. case r of [] \<Rightarrow> [] | c # _ \<Rightarrow> if is_ws c then [space] else r) (runs s))"

section \<open>The element tree\<close>

text \<open>
  The tree is always the output of the HTML parser: the class attribute of an element is
  a list of tokens when present (\<^verbatim>\<open>properties.className\<close>), and the other properties
  are kept with their attribute text, keyed by property name (\<^verbatim>\<open>dataLanguage\<close>,
  \<^verbatim>\<open>role\<close>). The root is not an element and holds the top-level nodes.
\<close>

datatype node =
    Element (tagName: string) (className: "string list option")
      (properties: "(string \<times> string) list") (children: "node list")
  | Text (val: jsstring)
  | Comment jsstring
  | Doctype

datatype root = Root (rootChildren: "node list")

text \<open>A node followed by everything below it, in document order (preorder).\<close>

fun descendants :: "node \<Rightarrow> node list" where
  "descendants (Element t c p cs) = Element t c p cs # concat (map descendants cs)"
| "descendants (Text v) = [Text v]"
| "descendants (Comment v) = [Comment v]"
| "descendants Doctype = [Doctype]"

definition root_nodes :: "root \<Rightarrow> node list" where
  "root_nodes r = concat (map descendants (rootChildren r))"

definition is_element :: "node \<Rightarrow> bool" where
  "is_element n = (case n of Element _ _ _ _ \<Rightarrow> True | _ \<Rightarrow> False)"

fun nodes :: "node \<Rightarrow> nat" where
  "nodes (Element t c p cs) = Suc (sum_list (map nodes cs))"
| "nodes (Text v) = 1"
| "nodes (Comment v) = 1"
| "nodes Doctype = 1"

section \<open>Selectors\<close>

text \<open>
  A selector string is represented by its parsed form: a comma-separated list of
  compound selectors, each a list of simple selectors that must all hold of the one
  element: a tag name, a class, an attribute with its value, \<^verbatim>\<open>:not(...)\<close> and
  \<^verbatim>\<open>:has(...)\<close>. \<^verbatim>\<open>matches\<close> of \<^verbatim>\<open>hast-util-select\<close> looks at the given element only,
  never at its ancestors or siblings (it raises an exception on a selector with a
  combinator; such selectors are not represented), and is false of every node that is
  not an element. \<^verbatim>\<open>:has(...)\<close> looks at the elements below the given one.
\<close>

datatype simple_selector =
    TagIs string
  | HasClass string
  | AttrIs string string
  | Not "simple_selector list list"
  | Has "simple_selector list list"

type_synonym selector = "simple_selector list list"

fun matches_simple :: "simple_selector \<Rightarrow> node \<Rightarrow> bool" where
  "matches_simple (TagIs t) n = (case n of Element t' _ _ _ \<Rightarrow> t' = t | _ \<Rightarrow> False)"
| "matches_simple (HasClass k) n =
     (case n of Element _ (Some l) _ _ \<Rightarrow> k \<in> set l | _ \<Rightarrow> False)"
| "matches_simple (AttrIs a v) n =
     (case n of Element _ _ p _ \<Rightarrow> map_of p a = Some v | _ \<Rightarrow> False)"
| "matches_simple (Not sel) n = (\<not> list_ex (list_all (\<lambda>s. matches_simple s n)) sel)"
| "matches_simple (Has sel) n =
     list_ex (\<lambda>d. is_element d \<and> list_ex (list_all (\<lambda>s. matches_simple s d)) sel)
       (tl (descendants n))"

definition matches :: "selector \<Rightarrow> node \<Rightarrow> bool" where
  "matches sel n = (is_element n \<and> list_ex (list_all (\<lambda>s. matches_simple s n)) sel)"

text \<open>
  \<^verbatim>\<open>select\<close> and \<^verbatim>\<open>selectAll\<close> of \<^verbatim>\<open>hast-util-select\<close> search the given node and
  everything below it in preorder; the given node itself can be a result.
\<close>

definition select :: "selector \<Rightarrow> node \<Rightarrow> node option" where
  "select sel n = find (matches sel) (descendants n)"

definition selectAll :: "selector \<Rightarrow> node \<Rightarrow> node list" where
  "selectAll sel n = filter (matches sel) (descendants n)"

text \<open>
  The code mutates the node that \<^verbatim>\<open>select\<close> returned. In the tree that is an update of
  the first node in preorder satisfying the test; \<open>None\<close> when there is none.
\<close>

fun modify_first :: "(node \<Rightarrow> bool) \<Rightarrow> (node \<Rightarrow> node) \<Rightarrow> node \<Rightarrow> node option"
  and modify_first_list ::
    "(node \<Rightarrow> bool) \<Rightarrow> (node \<Rightarrow> node) \<Rightarrow> node list \<Rightarrow> node list option" where
  "modify_first P f (Element t c p cs) =
     (if P (Element t c p cs) then Some (f (Element t c p cs))
      else map_option (Element t c p) (modify_first_list P f cs))"
| "modify_first P f (Text v) = (if P (Text v) then Some (f (Text v)) else None)"
| "modify_first P f (Comment v) = (if P (Comment v) then Some (f (Comment v)) else None)"
| "modify_first P f Doctype = (if P Doctype then Some (f Doctype) else None)"
| "modify_first_list P f [] = None"
| "modify_first_list P f (n # ns) =
     (case modify_first P f n of
        Some n' \<Rightarrow> Some (n' # ns)
      | None \<Rightarrow> map_option ((#) n) (modify_first_list P f ns))"

text \<open>The selectors that the source uses.\<close>

definition sel_details :: selector where
  "sel_details = [[TagIs ''details'']]"

definition sel_aside :: selector where
  "sel_aside = [[HasClass ''starlight-aside'']]"

definition sel_expressive_code :: selector where
  "sel_expressive_code = [[HasClass ''expressive-code'']]"

definition sel_figcaption :: selector where
  "sel_figcaption = [[TagIs ''figcaption'']]"

definition sel_span_sr_only :: selector where
  "sel_span_sr_only = [[TagIs ''span'', HasClass ''sr-only'']]"

definition sel_pre :: selector where
  "sel_pre = [[TagIs ''pre'']]"

definition sel_code :: selector where
  "sel_code = [[TagIs ''code'']]"

definition sel_diff_line :: selector where
  "sel_diff_line =
     [[TagIs ''div'', HasClass ''ec-line'', HasClass ''ins''],
      [TagIs ''div'', HasClass ''ec-line'', HasClass ''del'']]"

definition sel_span_not_indent :: selector where
  "sel_span_not_indent = [[TagIs ''span'', Not [[HasClass ''indent'']]]]"

definition sel_tabs :: selector where
  "sel_tabs = [[TagIs ''starlight-tabs'']]"

definition sel_tab :: selector where
  "sel_tab = [[AttrIs ''role'' ''tab'']]"

definition sel_tabpanel :: selector where
  "sel_tabpanel = [[AttrIs ''role'' ''tabpanel'']]"

definition sel_file_tree :: selector where
  "sel_file_tree = [[TagIs ''starlight-file-tree'']]"

definition sel_sr_only :: selector where
  "sel_sr_only = [[HasClass ''sr-only'']]"

text \<open>
  Selectors that look at the element's own tag, classes and attributes only: no
  \<^verbatim>\<open>:has(...)\<close> anywhere in them.
\<close>

fun own_simple :: "simple_selector \<Rightarrow> bool" where
  "own_simple (TagIs t) = True"
| "own_simple (HasClass k) = True"
| "own_simple (AttrIs a v) = True"
| "own_simple (Not sel) = list_all (list_all own_simple) sel"
| "own_simple (Has sel) = False"

definition own_only :: "selector \<Rightarrow> bool" where
  "own_only sel = list_all (list_all own_simple) sel"

text \<open>Two nodes that agree in everything but their children.\<close>

fun same_head :: "node \<Rightarrow> node \<Rightarrow> bool" where
  "same_head (Element t c p cs) (Element t' c' p' cs') = (t = t' \<and> c = c' \<and> p = p')"
| "same_head (Text v) n = (n = Text v)"
| "same_head (Comment v) n = (n = Comment v)"
| "same_head Doctype n = (n = Doctype)"
| "same_head (Element t c p cs) n = False"

section \<open>Places in the tree\<close>

text \<open>
  A place in the tree is the list of child indices that lead to it from the root;
  \<open>node_at cs path\<close> is the node at that place below the children \<open>cs\<close>, when there is
  one.
\<close>

fun node_at :: "node list \<Rightarrow> nat list \<Rightarrow> node option" where
  "node_at cs [] = None"
| "node_at cs [i] = (if i < length cs then Some (cs ! i) else None)"
| "node_at cs (i # j # path) =
     (if i < length cs then
        (case cs ! i of Element t c p ks \<Rightarrow> node_at ks (j # path) | _ \<Rightarrow> None)
      else None)"

text \<open>
  None of the elements passed on the way down to the place (the node at the place
  itself is not one of them) matches the selector.
\<close>

fun outside :: "selector \<Rightarrow> node list \<Rightarrow> nat list \<Rightarrow> bool" where
  "outside sel cs [] = True"
| "outside sel cs [i] = True"
| "outside sel cs (i # j # path) =
     (i < length cs \<and> \<not> matches sel (cs ! i) \<and>
      (case cs ! i of Element t c p ks \<Rightarrow> outside sel ks (j # path) | _ \<Rightarrow> False))"

text \<open>
  A rich code sample widget at a place of the tree that does not lie inside another one
  and holds none: \<^verbatim>\<open>selectAll('.expressive-code', inst)\<close> finds the widget alone.
\<close>

definition lone_widget_at :: "root \<Rightarrow> nat list \<Rightarrow> node \<Rightarrow> bool" where
  "lone_widget_at tree path inst =
     (node_at (rootChildren tree) path = Some inst
      \<and> outside sel_expressive_code (rootChildren tree) path
      \<and> selectAll sel_expressive_code inst = [inst])"

text \<open>No node at or below \<open>n\<close>, respectively strictly below \<open>n\<close>, has the property.\<close>

definition free_of :: "(node \<Rightarrow> bool) \<Rightarrow> node \<Rightarrow> bool" where
  "free_of Q n = list_all (\<lambda>d. \<not> Q d) (descendants n)"

definition free_below :: "(node \<Rightarrow> bool) \<Rightarrow> node \<Rightarrow> bool" where
  "free_below Q n = list_all (\<lambda>d. \<not> Q d) (tl (descendants n))"

section \<open>Removing nodes\<close>

text \<open>
  \<^verbatim>\<open>remove(tree, test)\<close> of \<^verbatim>\<open>unist-util-remove\<close> (version 4), with its default
  options: the tree is walked in preorder, a node that passes the test is dropped with
  everything below it, without its children being looked at, and a node that had
  children and lost all of them is dropped as well (the \<^verbatim>\<open>cascade\<close> option, on by
  default). The node given as \<^verbatim>\<open>tree\<close> is neither tested nor dropped;
  \<open>remove_children\<close> is what is left of its children.
\<close>

fun remove_node :: "(node \<Rightarrow> bool) \<Rightarrow> node \<Rightarrow> node option"
  and remove_children :: "(node \<Rightarrow> bool) \<Rightarrow> node list \<Rightarrow> node list" where
  "remove_node test (Element t c p cs) =
     (if test (Element t c p cs) then None
      else if cs = [] then Some (Element t c p [])
      else (case remove_children test cs of
              [] \<Rightarrow> None
            | k # ks \<Rightarrow> Some (Element t c p (k # ks))))"
| "remove_node test (Text v) = (if test (Text v) then None else Some (Text v))"
| "remove_node test (Comment v) = (if test (Comment v) then None else Some (Comment v))"
| "remove_node test Doctype = (if test Doctype then None else Some Doctype)"
| "remove_children test [] = []"
| "remove_children test (n # ns) =
     (case remove_node test n of
        Some n' \<Rightarrow> n' # remove_children test ns
      | None \<Rightarrow> remove_children test ns)"

section \<open>Minification options\<close>

text \<open>
  \<open>minify_options\<close> is the resolved record \<^verbatim>\<open>minify\<close>: the defaults overlaid by the options
  the user gave.
\<close>

datatype variant = Note | Tip | Caution | Danger

record minify_options =
  opt_note :: bool
  opt_tip :: bool
  opt_caution :: bool
  opt_danger :: bool
  opt_details :: bool
  opt_whitespace :: bool
  customSelectors :: "selector list"

definition minifyDefaults :: minify_options where
  "minifyDefaults =
     \<lparr>opt_note = True, opt_tip = True, opt_caution = False, opt_danger = False,
      opt_details = True, opt_whitespace = True, customSelectors = []\<rparr>"

text \<open>\<^verbatim>\<open>minify[variant]\<close>\<close>

fun variant_flag :: "minify_options \<Rightarrow> variant \<Rightarrow> bool" where
  "variant_flag m Note = opt_note m"
| "variant_flag m Tip = opt_tip m"
| "variant_flag m Caution = opt_caution m"
| "variant_flag m Danger = opt_danger m"

fun variant_name :: "variant \<Rightarrow> string" where
  "variant_name Note = ''note''"
| "variant_name Tip = ''tip''"
| "variant_name Caution = ''caution''"
| "variant_name Danger = ''danger''"

text \<open>\<^verbatim>\<open>`.starlight-aside--${variant}`\<close>\<close>

definition sel_variant :: "variant \<Rightarrow> selector" where
  "sel_variant v = [[HasClass (''starlight-aside--'' @ variant_name v)]]"

text \<open>The custom selectors, with \<^verbatim>\<open>details\<close> put in front when that option is set.\<close>

definition selectors :: "minify_options \<Rightarrow> selector list" where
  "selectors m = (if opt_details m then [sel_details] else []) @ customSelectors m"

section \<open>The minify filter\<close>

text \<open>The test handed to \<^verbatim>\<open>remove\<close> in \<^verbatim>\<open>minifyLlmsTxt\<close>.\<close>

definition minify_test :: "minify_options \<Rightarrow> node \<Rightarrow> bool" where
  "minify_test m n =
     (list_ex (\<lambda>s. matches s n) (selectors m)
      \<or> (matches sel_aside n
          \<and> list_ex (\<lambda>v. variant_flag m v \<and> matches (sel_variant v) n)
               [Note, Tip, Caution, Danger]))"

definition minifyLlmsTxt :: "minify_options \<Rightarrow> bool \<Rightarrow> root \<Rightarrow> root" where
  "minifyLlmsTxt m shouldMinify tree =
     (if \<not> shouldMinify then tree
      else Root (remove_children (minify_test m) (rootChildren tree)))"

section \<open>The code-block normalizer\<close>

lemma nodes_member_le: "x \<in> set cs \<Longrightarrow> nodes x \<le> sum_list (map nodes cs)"
  by (induction cs) auto

lemma nodes_map_le:
  "(\<And>x. nodes (g x) \<le> nodes x) \<Longrightarrow>
   sum_list (map nodes (map g cs)) \<le> sum_list (map nodes cs)"
  by (induction cs) (auto intro: add_mono)

lemma nodes_modify_first:
  "(\<And>x. nodes (f x) \<le> nodes x) \<Longrightarrow> modify_first P f n = Some n' \<Longrightarrow>
   nodes n' \<le> nodes n"
  "(\<And>x. nodes (f x) \<le> nodes x) \<Longrightarrow> modify_first_list P f ns = Some ns' \<Longrightarrow>
   sum_list (map nodes ns') \<le> sum_list (map nodes ns)"
proof (induction P f n and P f ns arbitrary: n' and ns'
    rule: modify_first_modify_first_list.induct)
  case (1 P f t c p cs)
  show ?case
  proof (cases "P (Element t c p cs)")
    case True
    then show ?thesis using 1(2)[of "Element t c p cs"] 1(3) by simp
  next
    case False
    then show ?thesis using 1 by auto
  qed
next
  case (2 P f v)
  then show ?case using 2(1)[of "Text v"] by (auto split: if_splits)
next
  case (3 P f v)
  then show ?case using 3(1)[of "Comment v"] by (auto split: if_splits)
next
  case (4 P f)
  then show ?case using 4(1)[of Doctype] by (auto split: if_splits)
next
  case (5 P f)
  then show ?case by simp
next
  case (6 P f n ns)
  then show ?case by (fastforce split: option.splits)
qed

text \<open>
  \<^verbatim>\<open>xs.splice(xs.findIndex(P), 1)\<close> when the index is not \<open>-1\<close>: the first element that
  satisfies the test is taken out.
\<close>

fun splice_first :: "('a \<Rightarrow> bool) \<Rightarrow> 'a list \<Rightarrow> 'a list" where
  "splice_first P [] = []"
| "splice_first P (x # xs) = (if P x then xs else x # splice_first P xs)"

text \<open>The caption loses its first child that is a \<^verbatim>\<open>span.sr-only\<close>.\<close>

definition strip_label :: "node \<Rightarrow> node" where
  "strip_label figcaption =
     (case figcaption of
        Element t c p cs \<Rightarrow> Element t c p (splice_first (matches sel_span_sr_only) cs)
      | n \<Rightarrow> n)"

definition caption_step :: "node \<Rightarrow> node" where
  "caption_step inst =
     (case modify_first (matches sel_figcaption) strip_label inst of
        Some inst' \<Rightarrow> inst'
      | None \<Rightarrow> inst)"

text \<open>\<^verbatim>\<open>pre.properties.dataLanguage\<close>\<close>

definition dataLanguage :: "node \<Rightarrow> string option" where
  "dataLanguage n = (case n of Element _ _ p _ \<Rightarrow> map_of p ''dataLanguage'' | _ \<Rightarrow> None)"

text \<open>
  \<^verbatim>\<open>firstChild.value = `${marker}${firstChild.value}`\<close>, when the first child of
  the span is a text node.
\<close>

definition prefix_text :: "code_unit \<Rightarrow> node \<Rightarrow> node" where
  "prefix_text marker span =
     (case span of
        Element t c p (Text v # rest) \<Rightarrow> Element t c p (Text (marker # v) # rest)
      | n \<Rightarrow> n)"

text \<open>\<^verbatim>\<open>classes.includes('ins') ? '+' : '-'\<close>\<close>

definition diff_marker :: "string list \<Rightarrow> code_unit" where
  "diff_marker classes = (if ''ins'' \<in> set classes then 0x2B else 0x2D)"

text \<open>One pass of the loop over \<^verbatim>\<open>diffLines\<close>.\<close>

definition mark_line :: "node \<Rightarrow> node" where
  "mark_line line =
     (case line of
        Element t (Some classes) p cs \<Rightarrow>
          (case modify_first (matches sel_span_not_indent)
                  (prefix_text (diff_marker classes)) line of
             Some line' \<Rightarrow> line'
           | None \<Rightarrow> line)
      | n \<Rightarrow> n)"

text \<open>What happens to the \<^verbatim>\<open>code\<close> element once the language \<open>lang\<close> is known.\<close>

definition annotate_code :: "string \<Rightarrow> node \<Rightarrow> node" where
  "annotate_code lang code =
     (case code of
        Element t c p cs \<Rightarrow>
          (let classes = (case c of Some l \<Rightarrow> l | None \<Rightarrow> []);
               diffLines =
                 (if lang = ''diff'' then [] else filter (matches sel_diff_line) cs)
           in if diffLines = []
              then Element t (Some (classes @ [''language-'' @ lang])) p cs
              else Element t (Some (classes @ [''language-diff''])) p
                     (map (\<lambda>child. if matches sel_diff_line child then mark_line child
                                   else child) cs))
      | n \<Rightarrow> n)"

definition code_step :: "node \<Rightarrow> node" where
  "code_step inst =
     (case select sel_pre inst of
        None \<Rightarrow> inst
      | Some pre \<Rightarrow>
          (case dataLanguage pre of
             None \<Rightarrow> inst
           | Some lang \<Rightarrow>
               if lang = [] then inst
               else (case modify_first (matches sel_code) (annotate_code lang) inst of
                       Some inst' \<Rightarrow> inst'
                     | None \<Rightarrow> inst)))"

text \<open>The body of the loop over \<^verbatim>\<open>ecInstances\<close>, for one instance.\<close>

definition ec_instance :: "node \<Rightarrow> node" where
  "ec_instance inst = code_step (caption_step inst)"

lemma nodes_splice_first:
  "sum_list (map nodes (splice_first P cs)) \<le> sum_list (map nodes cs)"
  by (induction cs) auto

lemma nodes_strip_label: "nodes (strip_label n) \<le> nodes n"
  by (cases n) (auto simp: strip_label_def nodes_splice_first)

lemma nodes_caption_step: "nodes (caption_step n) \<le> nodes n"
  by (auto simp: caption_step_def split: option.splits
      intro: nodes_modify_first(1)[OF nodes_strip_label])

lemma nodes_prefix_text: "nodes (prefix_text m n) \<le> nodes n"
  by (auto simp: prefix_text_def split: node.splits list.splits)

lemma nodes_mark_line: "nodes (mark_line n) \<le> nodes n"
proof -
  have "\<And>m l'. modify_first (matches sel_span_not_indent) (prefix_text m) n = Some l'
     \<Longrightarrow> nodes l' \<le> nodes n"
    by (rule nodes_modify_first(1)[OF nodes_prefix_text])
  then show ?thesis
    by (auto simp: mark_line_def simp del: modify_first.simps
        split: node.splits option.splits)
qed

lemma nodes_annotate_code: "nodes (annotate_code lang n) \<le> nodes n"
proof (cases n)
  case (Element t c p cs)
  have "sum_list (map nodes (map (\<lambda>child. if matches sel_diff_line child
          then mark_line child else child) cs)) \<le> sum_list (map nodes cs)"
    by (rule nodes_map_le) (simp add: nodes_mark_line)
  then show ?thesis using Element by (simp add: annotate_code_def Let_def)
qed (simp_all add: annotate_code_def)

lemma nodes_code_step: "nodes (code_step n) \<le> nodes n"
  by (auto simp: code_step_def split: option.splits
      intro: nodes_modify_first(1)[OF nodes_annotate_code])

lemma nodes_ec_instance: "nodes (ec_instance n) \<le> nodes n"
  unfolding ec_instance_def
  using nodes_code_step[of "caption_step n"] nodes_caption_step[of n] by linarith

text \<open>
  The instances are collected by \<^verbatim>\<open>selectAll('.expressive-code', tree)\<close> before the
  loop and handled in document order, each by mutation of its own subtree. An instance
  inside another one is therefore handled after the outer one, in the state the outer
  one left it in: the walk handles a node and then goes into its children.
\<close>

function ec_node :: "node \<Rightarrow> node" where
  "ec_node n =
     (case (if matches sel_expressive_code n then ec_instance n else n) of
        Element t c p cs \<Rightarrow> Element t c p (map ec_node cs)
      | other \<Rightarrow> other)"
  by pat_completeness auto
termination
proof (relation "measure nodes", goal_cases)
  case 1
  show ?case by simp
next
  case (2 n t c p cs x)
  have "nodes x \<le> sum_list (map nodes cs)" using 2(2) by (rule nodes_member_le)
  moreover have "nodes (Element t c p cs) \<le> nodes n"
    using 2(1) nodes_ec_instance[of n] by (auto split: if_splits)
  ultimately show ?case by simp
qed

declare ec_node.simps [simp del]

definition improveExpressiveCodeHandling :: "root \<Rightarrow> root" where
  "improveExpressiveCodeHandling tree = Root (map ec_node (rootChildren tree))"

text \<open>
  The text that the loop over the flagged lines prefixes: the value of the first child of
  the first \<^verbatim>\<open>span\<close> without class \<^verbatim>\<open>indent\<close> in the line, when that child is a text
  node.
\<close>

definition first_text_run :: "node \<Rightarrow> jsstring option" where
  "first_text_run line =
     (case select sel_span_not_indent line of
        Some (Element t c p (Text v # rest)) \<Rightarrow> Some v
      | _ \<Rightarrow> None)"

section \<open>The tabs flattener\<close>

fun text_value :: "node \<Rightarrow> jsstring option" where
  "text_value (Text v) = Some v"
| "text_value (Element t c p cs) = None"
| "text_value (Comment v) = None"
| "text_value Doctype = None"

text \<open>
  The text children of the tab whose trimmed value is not empty, each trimmed, joined
  without a separator.
\<close>

definition tabLabel :: "node \<Rightarrow> jsstring" where
  "tabLabel tab =
     (case tab of
        Element t c p cs \<Rightarrow>
          concat (map trim (filter (\<lambda>v. trim v \<noteq> []) (List.map_filter text_value cs)))
      | _ \<Rightarrow> [])"

text \<open>The list entry pushed for one tab and its panel.\<close>

definition tabItem :: "node \<Rightarrow> node \<Rightarrow> node" where
  "tabItem tab panel =
     Element ''li'' None [] [Element ''p'' None [] [Text (tabLabel tab)], panel]"

text \<open>
  \<^verbatim>\<open>selectAll('[role="tab"]', instance)\<close>, as the loop reads it. The instance itself is
  the first result when it carries the role; by the time the loop reads its children
  they have been replaced by the list built so far, which holds no text node, so it
  stands in the list as the emptied \<^verbatim>\<open>ul\<close>.
\<close>

definition tabs_of :: "node \<Rightarrow> node list" where
  "tabs_of inst =
     (case inst of
        Element t c p cs \<Rightarrow>
          (if matches sel_tab inst then [Element ''ul'' None [] []] else [])
          @ filter (matches sel_tab) (concat (map descendants cs))
      | _ \<Rightarrow> [])"

lemma size_descendants: "d \<in> set (descendants n) \<Longrightarrow> size d \<le> size n"
proof (induction n arbitrary: d)
  case (Element t c p cs)
  then show ?case
    by (fastforce dest: size_list_estimation'[where f = size] simp: le_Suc_eq)
qed auto

lemma selectAll_smaller:
  assumes "\<not> matches sel n" and "q \<in> set (selectAll sel n)"
  shows "size q < size n"
proof (cases n)
  case (Element t c p cs)
  from assms obtain k where k: "k \<in> set cs" "q \<in> set (descendants k)"
    using Element by (auto simp: selectAll_def)
  have "size q \<le> size k" using k(2) by (rule size_descendants)
  moreover have "size k \<le> size_list size cs"
    using k(1) by (simp add: size_list_estimation')
  ultimately show ?thesis using Element by simp
qed (use assms in \<open>auto simp: selectAll_def\<close>)

text \<open>
  The instances are collected before the loop and handled in document order. Each one
  becomes a \<^verbatim>\<open>ul\<close> whose entries hold the panels found below it; a tabs instance
  inside such a panel is handled later, in place, so the panel appears flattened in the
  final tree. When the instance itself carries \<^verbatim>\<open>role="tabpanel"\<close> and has a tab, it
  is put into its own first entry: the result is cyclic and not a tree, which is \<open>None\<close>
  here (the converter that runs next does not return on it).
  Where a selected panel lies inside another selected panel, the source's entries share
  that node; the tree shows it at each place it is reachable from.
\<close>

function tabs_node :: "node \<Rightarrow> node option" where
  "tabs_node (Element t c p cs) =
     (if matches sel_tabs (Element t c p cs) then
        (if tabs_of (Element t c p cs) \<noteq> [] \<and> matches sel_tabpanel (Element t c p cs)
         then None
         else map_option (Element ''ul'' None [])
                (those (map (\<lambda>(tab, panel). map_option (tabItem tab) (tabs_node panel))
                         (zip (tabs_of (Element t c p cs))
                              (selectAll sel_tabpanel (Element t c p cs))))))
      else map_option (Element t c p) (those (map tabs_node cs)))"
| "tabs_node (Text v) = Some (Text v)"
| "tabs_node (Comment v) = Some (Comment v)"
| "tabs_node Doctype = Some Doctype"
  by pat_completeness auto
termination
proof (relation "measure size", goal_cases)
  case 1
  show ?case by simp
next
  case (2 t c p cs x xa y)
  from 2 have "tabs_of (Element t c p cs) \<noteq> []" by (auto dest: set_zip_leftD)
  with 2 have "\<not> matches sel_tabpanel (Element t c p cs)" by simp
  moreover from 2 have "y \<in> set (selectAll sel_tabpanel (Element t c p cs))"
    by (auto dest: set_zip_rightD)
  ultimately have "size y < size (Element t c p cs)" by (rule selectAll_smaller)
  then show ?case by simp
next
  case (3 t c p cs x)
  then show ?case by (simp add: size_list_estimation' less_Suc_eq_le)
qed

definition improveTabsHandling :: "root \<Rightarrow> root option" where
  "improveTabsHandling tree = map_option Root (those (map tabs_node (rootChildren tree)))"

text \<open>
  No \<^verbatim>\<open>starlight-tabs\<close> element at or below the node carries \<^verbatim>\<open>role="tabpanel"\<close> itself:
  the flattener then builds no cyclic structure.
\<close>

definition no_panel_instance :: "node \<Rightarrow> bool" where
  "no_panel_instance n =
     list_all (\<lambda>e. \<not> (matches sel_tabs e \<and> matches sel_tabpanel e)) (descendants n)"

section \<open>The file-tree label stripper\<close>

text \<open>\<^verbatim>\<open>remove(tree, (node) => matches('.sr-only', node))\<close> on one file tree.\<close>

definition strip_sr_only :: "node \<Rightarrow> node" where
  "strip_sr_only tree =
     (case tree of
        Element t c p cs \<Rightarrow> Element t c p (remove_children (matches sel_sr_only) cs)
      | n \<Rightarrow> n)"

lemma nodes_remove:
  "remove_node test n = Some n' \<Longrightarrow> nodes n' \<le> nodes n"
  "sum_list (map nodes (remove_children test ns)) \<le> sum_list (map nodes ns)"
proof (induction test n and test ns arbitrary: n'
    rule: remove_node_remove_children.induct)
  case (1 test t c p cs)
  then show ?case by (auto split: if_splits list.splits)
next
  case (6 test n ns)
  then show ?case by (fastforce split: option.splits)
qed (auto split: if_splits)

lemma nodes_strip_sr_only: "nodes (strip_sr_only n) \<le> nodes n"
  by (cases n) (auto simp: strip_sr_only_def nodes_remove(2))

function file_tree_node :: "node \<Rightarrow> node" where
  "file_tree_node n =
     (case (if matches sel_file_tree n then strip_sr_only n else n) of
        Element t c p cs \<Rightarrow> Element t c p (map file_tree_node cs)
      | other \<Rightarrow> other)"
  by pat_completeness auto
termination
proof (relation "measure nodes", goal_cases)
  case 1
  show ?case by simp
next
  case (2 n t c p cs x)
  have "nodes x \<le> sum_list (map nodes cs)" using 2(2) by (rule nodes_member_le)
  moreover have "nodes (Element t c p cs) \<le> nodes n"
    using 2(1) nodes_strip_sr_only[of n] by (auto split: if_splits)
  ultimately show ?case by simp
qed

declare file_tree_node.simps [simp del]

definition improveFileTreeHandling :: "root \<Rightarrow> root" where
  "improveFileTreeHandling tree = Root (map file_tree_node (rootChildren tree))"

section \<open>The pipeline\<close>

text \<open>
  The renderer, the HTML parser and the conversion to Markdown text (\<^verbatim>\<open>rehypeRemark\<close>,
  \<^verbatim>\<open>remarkGfm\<close>, \<^verbatim>\<open>remarkStringify\<close>) are taken as given; \<open>None\<close> stands for an
  exception.
\<close>

record entry =
  entry_id :: string
  entry_body :: "jsstring option"

record externals =
  renderToString :: "entry \<Rightarrow> jsstring option"
  rehypeParse :: "jsstring \<Rightarrow> root"
  toMarkdown :: "root \<Rightarrow> jsstring option"

text \<open>
  The tree transformers of the pipeline, in the order they are registered. (Where the
  tabs flattener has made two entries share a panel, the source's file-tree stage
  mutates the one shared node; here each place is handled on its own.)
\<close>

definition transform :: "minify_options \<Rightarrow> bool \<Rightarrow> root \<Rightarrow> root option" where
  "transform m shouldMinify tree =
     map_option improveFileTreeHandling
       (improveTabsHandling (improveExpressiveCodeHandling (minifyLlmsTxt m shouldMinify tree)))"

definition htmlToMarkdownPipeline ::
  "externals \<Rightarrow> minify_options \<Rightarrow> bool \<Rightarrow> jsstring \<Rightarrow> jsstring option" where
  "htmlToMarkdownPipeline ext m shouldMinify html =
     (case transform m shouldMinify (rehypeParse ext html) of
        None \<Rightarrow> None
      | Some tree \<Rightarrow> toMarkdown ext tree)"

definition entryToSimpleMarkdown ::
  "externals \<Rightarrow> bool \<Rightarrow> minify_options \<Rightarrow> entry \<Rightarrow> bool \<Rightarrow> jsstring option" where
  "entryToSimpleMarkdown ext rawMDX m entry shouldMinify =
     (if endsWith (entry_id entry) ''.mdx'' \<or> rawMDX then
        Some (case entry_body entry of Some b \<Rightarrow> b | None \<Rightarrow> [])
      else
        (case renderToString ext entry of
           None \<Rightarrow> None
         | Some html \<Rightarrow>
             (case htmlToMarkdownPipeline ext m shouldMinify html of
                None \<Rightarrow> None
              | Some file \<Rightarrow>
                  (let markdown = trim file
                   in Some (if shouldMinify \<and> opt_whitespace m
                            then collapse_whitespace markdown else markdown)))))"

section \<open>The minify filter is the identity when minification is not requested\<close>

text \<open>
  Claim C7. When the per-invocation minify flag is false, the minify filter returns the
  tree unchanged, whatever the configured selectors and aside flags are.
\<close>

theorem minify_not_requested_identity:
  "minifyLlmsTxt m False tree = tree"
  by (simp add: minifyLlmsTxt_def)

text \<open>
  With the default options, a tree holding a \<^verbatim>\<open>details\<close> element stays as it is without
  the flag, and loses the element with it.
\<close>

theorem minify_not_requested_identity_witness:
  "minifyLlmsTxt minifyDefaults False
      (Root [Element ''details'' None [] [Text (js ''more'')],
             Element ''p'' None [] [Text (js ''body'')]])
    = Root [Element ''details'' None [] [Text (js ''more'')],
            Element ''p'' None [] [Text (js ''body'')]]
   \<and> minifyLlmsTxt minifyDefaults True
      (Root [Element ''details'' None [] [Text (js ''more'')],
             Element ''p'' None [] [Text (js ''body'')]])
    = Root [Element ''p'' None [] [Text (js ''body'')]]"
  using minify_not_requested_identity[of minifyDefaults
      "Root [Element ''details'' None [] [Text (js ''more'')],
             Element ''p'' None [] [Text (js ''body'')]]"]
  by (simp add: minifyLlmsTxt_def minify_test_def minifyDefaults_def selectors_def
      matches_def is_element_def sel_details_def sel_aside_def)

section \<open>The passthrough for MDX entries\<close>

text \<open>
  Claim C9. For an entry whose identifier ends in \<^verbatim>\<open>.mdx\<close>, or when the raw-MDX flag is
  set, \<open>entryToSimpleMarkdown\<close> returns the raw body of the entry unchanged, whatever the
  renderer, the parser and the converter would do: the pipeline is not run.
\<close>

theorem mdx_passthrough:
  assumes "endsWith (entry_id e) ''.mdx'' \<or> rawMDX"
    and "entry_body e = Some b"
  shows "entryToSimpleMarkdown ext rawMDX m e shouldMinify = Some b"
  using assms by (simp add: entryToSimpleMarkdown_def)

text \<open>An MDX entry, with a renderer and a converter that would both fail.\<close>

theorem mdx_passthrough_witness:
  "endsWith (entry_id \<lparr>entry_id = ''guides/intro.mdx'', entry_body = Some (js ''# Hi'')\<rparr>)
     ''.mdx''
   \<and> entryToSimpleMarkdown
        \<lparr>renderToString = (\<lambda>_. None), rehypeParse = (\<lambda>_. Root []),
         toMarkdown = (\<lambda>_. None)\<rparr>
        False minifyDefaults
        \<lparr>entry_id = ''guides/intro.mdx'', entry_body = Some (js ''# Hi'')\<rparr> False
      = Some (js ''# Hi'')"
proof -
  have h: "endsWith
      (entry_id \<lparr>entry_id = ''guides/intro.mdx'', entry_body = Some (js ''# Hi'')\<rparr>)
      ''.mdx''"
    by (simp add: endsWith_def)
  show ?thesis
    using h mdx_passthrough[of
        "\<lparr>entry_id = ''guides/intro.mdx'', entry_body = Some (js ''# Hi'')\<rparr>"
        False "js ''# Hi''"
        "\<lparr>renderToString = (\<lambda>_. None), rehypeParse = (\<lambda>_. Root []),
          toMarkdown = (\<lambda>_. None)\<rparr>"
        minifyDefaults False]
    by simp
qed

text \<open>
  Claim C10. On the passthrough path the body is returned as it is, neither trimmed nor
  whitespace-collapsed, also when minification is requested and the whitespace option is
  set; an entry without a body gives the empty string.
\<close>

theorem mdx_passthrough_untouched:
  assumes "endsWith (entry_id e) ''.mdx'' \<or> rawMDX"
    and "opt_whitespace m"
  shows "entryToSimpleMarkdown ext rawMDX m e True
         = Some (case entry_body e of Some b \<Rightarrow> b | None \<Rightarrow> [])"
  using assms by (simp add: entryToSimpleMarkdown_def)

text \<open>
  With the raw-MDX flag and the default options (whitespace set): a body with outer and
  inner whitespace runs comes back as it is, although trimming and collapsing would
  change it; and a missing body comes back as the empty string.
\<close>

theorem mdx_passthrough_untouched_witness:
  "opt_whitespace minifyDefaults
   \<and> entryToSimpleMarkdown
        \<lparr>renderToString = (\<lambda>_. None), rehypeParse = (\<lambda>_. Root []),
         toMarkdown = (\<lambda>_. None)\<rparr>
        True minifyDefaults
        \<lparr>entry_id = ''page.md'', entry_body = Some (js '' a  b '')\<rparr> True
      = Some (js '' a  b '')
   \<and> trim (js '' a  b '') = js ''a  b''
   \<and> collapse_whitespace (trim (js '' a  b '')) = js ''a b''
   \<and> entryToSimpleMarkdown
        \<lparr>renderToString = (\<lambda>_. None), rehypeParse = (\<lambda>_. Root []),
         toMarkdown = (\<lambda>_. None)\<rparr>
        True minifyDefaults
        \<lparr>entry_id = ''page.md'', entry_body = None\<rparr> True
      = Some []"
proof -
  have w: "opt_whitespace minifyDefaults"
    by (simp add: minifyDefaults_def)
  have a: "entryToSimpleMarkdown
        \<lparr>renderToString = (\<lambda>_. None), rehypeParse = (\<lambda>_. Root []),
         toMarkdown = (\<lambda>_. None)\<rparr>
        True minifyDefaults
        \<lparr>entry_id = ''page.md'', entry_body = Some (js '' a  b '')\<rparr> True
      = Some (js '' a  b '')"
    using mdx_passthrough_untouched[OF _ w, of
        "\<lparr>entry_id = ''page.md'', entry_body = Some (js '' a  b '')\<rparr>" True]
    by simp
  have b: "entryToSimpleMarkdown
        \<lparr>renderToString = (\<lambda>_. None), rehypeParse = (\<lambda>_. Root []),
         toMarkdown = (\<lambda>_. None)\<rparr>
        True minifyDefaults
        \<lparr>entry_id = ''page.md'', entry_body = None\<rparr> True
      = Some []"
    using mdx_passthrough_untouched[OF _ w, of
        "\<lparr>entry_id = ''page.md'', entry_body = None\<rparr>" True]
    by simp
  have t: "trim (js '' a  b '') = js ''a  b''"
    by (simp add: trim_def js_def is_ws_def)
  have c: "collapse_whitespace (trim (js '' a  b '')) = js ''a b''"
    by (simp add: trim_def js_def is_ws_def space_def)
  show ?thesis using w a b t c by simp
qed

section \<open>Trimming and whitespace collapse of the serialized text\<close>

lemma concat_runs: "concat (runs s) = s"
  by (induction s rule: runs.induct) auto

lemma collapse_nonws_prefix:
  "list_all (\<lambda>x. \<not> is_ws x) xs \<Longrightarrow> collapse_whitespace (xs @ ys) = xs @ collapse_whitespace ys"
  by (induction xs) auto

lemma collapse_eq_runs: "collapse_whitespace s = collapse_runs s"
proof (induction s rule: runs.induct)
  case 1
  show ?case by (simp add: collapse_runs_def)
next
  case (2 c cs)
  show ?case
  proof (cases "is_ws c")
    case True
    with 2 show ?thesis by (simp add: collapse_runs_def)
  next
    case False
    have "collapse_whitespace (takeWhile (\<lambda>x. \<not> is_ws x) cs @ dropWhile (\<lambda>x. \<not> is_ws x) cs)
          = takeWhile (\<lambda>x. \<not> is_ws x) cs @ collapse_whitespace (dropWhile (\<lambda>x. \<not> is_ws x) cs)"
      by (rule collapse_nonws_prefix) (auto simp: list_all_iff dest: set_takeWhileD)
    then have "collapse_whitespace cs
          = takeWhile (\<lambda>x. \<not> is_ws x) cs @ collapse_whitespace (dropWhile (\<lambda>x. \<not> is_ws x) cs)"
      by simp
    with 2 False show ?thesis by (simp add: collapse_runs_def)
  qed
qed

lemma collapse_Nil_iff: "collapse_whitespace s = [] \<longleftrightarrow> s = []"
  by (cases s) auto

lemma dropWhile_hd_nonws: "dropWhile is_ws cs = d # ds \<Longrightarrow> \<not> is_ws d"
  by (metis hd_dropWhile list.sel(1) list.distinct(1))

lemma no_adjacent_ws_collapse: "\<not> adjacent_ws (collapse_whitespace s)"
proof (induction s rule: collapse_whitespace.induct)
  case 1
  show ?case by simp
next
  case (2 c cs)
  show ?case
  proof (cases "is_ws c")
    case True
    show ?thesis
    proof (cases "dropWhile is_ws cs")
      case Nil
      then have "collapse_whitespace (dropWhile is_ws cs) = []"
        by (simp only: collapse_whitespace.simps)
      then have "collapse_whitespace (c # cs) = [space]"
        using True by (simp only: collapse_whitespace.simps if_True)
      then show ?thesis by simp
    next
      case (Cons d ds)
      then have "\<not> is_ws d" by (rule dropWhile_hd_nonws)
      with 2(1)[OF True] True Cons show ?thesis by simp
    qed
  next
    case False
    show ?thesis
    proof (cases cs)
      case Nil
      with False show ?thesis by simp
    next
      case (Cons d ds)
      with 2(2)[OF False] False show ?thesis by (cases "is_ws d") auto
    qed
  qed
qed

lemma last_collapse:
  "s \<noteq> [] \<Longrightarrow> \<not> is_ws (last s) \<Longrightarrow>
   collapse_whitespace s \<noteq> [] \<and> \<not> is_ws (last (collapse_whitespace s))"
proof (induction s rule: collapse_whitespace.induct)
  case 1
  then show ?case by simp
next
  case (2 c cs)
  show ?case
  proof (cases "is_ws c")
    case True
    with 2(3,4) have cs: "cs \<noteq> []" "\<not> is_ws (last cs)" by (auto split: if_splits)
    then have "\<exists>x\<in>set cs. \<not> is_ws x" using last_in_set by blast
    then have d: "dropWhile is_ws cs \<noteq> []" by (simp add: dropWhile_eq_Nil_conv)
    then have "last (dropWhile is_ws cs) = last cs"
      by (metis last_appendR takeWhile_dropWhile_id)
    with 2(1)[OF True d] cs have
      "collapse_whitespace (dropWhile is_ws cs) \<noteq> []"
      "\<not> is_ws (last (collapse_whitespace (dropWhile is_ws cs)))" by simp_all
    moreover have "collapse_whitespace (c # cs) = space # collapse_whitespace (dropWhile is_ws cs)"
      using True by simp
    ultimately show ?thesis by simp
  next
    case False
    show ?thesis
    proof (cases cs)
      case Nil
      with False show ?thesis by simp
    next
      case (Cons d ds)
      with 2(2)[OF False] 2(3,4) False show ?thesis by (simp add: collapse_Nil_iff)
    qed
  qed
qed

lemma trimmed_collapse: "trimmed s \<Longrightarrow> trimmed (collapse_whitespace s)"
proof (cases s)
  case Nil
  then show ?thesis by (simp add: trimmed_def)
next
  case (Cons c cs)
  assume "trimmed s"
  with Cons have c: "\<not> is_ws c" and l: "\<not> is_ws (last s)" by (simp_all add: trimmed_def)
  from last_collapse[of s] l Cons have "\<not> is_ws (last (collapse_whitespace s))" by simp
  with c Cons show ?thesis by (simp add: trimmed_def)
qed

lemma trimmed_trim: "trimmed (trim s)"
proof (cases "trim s")
  case Nil
  then show ?thesis by (simp add: trimmed_def)
next
  case (Cons c cs)
  let ?t = "dropWhile is_ws s"
  let ?u = "dropWhile is_ws (rev ?t)"
  have u: "rev ?u = c # cs" using Cons by (simp add: trim_def)
  then have une: "?u \<noteq> []" by auto
  have "\<not> is_ws (hd ?u)" using une by (metis hd_dropWhile)
  then have lastc: "\<not> is_ws (last (c # cs))" using u une by (metis last_rev rev_rev_ident)
  have "rev ?t = takeWhile is_ws (rev ?t) @ ?u" by simp
  then have "?t = rev ?u @ rev (takeWhile is_ws (rev ?t))"
    by (metis rev_append rev_rev_ident)
  then have t: "?t = c # (cs @ rev (takeWhile is_ws (rev ?t)))" using u by simp
  then have "\<not> is_ws c" by (metis dropWhile_hd_nonws)
  with lastc Cons show ?thesis by (simp add: trimmed_def)
qed

lemma trim_decomp:
  "s = takeWhile is_ws s @ trim s @ rev (takeWhile is_ws (rev (dropWhile is_ws s)))"
proof -
  let ?t = "dropWhile is_ws s"
  have "rev ?t = takeWhile is_ws (rev ?t) @ dropWhile is_ws (rev ?t)" by simp
  then have "?t = rev (dropWhile is_ws (rev ?t)) @ rev (takeWhile is_ws (rev ?t))"
    by (metis rev_append rev_rev_ident)
  then have "?t = trim s @ rev (takeWhile is_ws (rev ?t))" by (simp add: trim_def)
  moreover have "s = takeWhile is_ws s @ ?t" by simp
  ultimately show ?thesis by metis
qed

text \<open>
  Claim C6. On the rendering path the serialized text is trimmed, and then, when
  minification is requested and the whitespace option is set, every maximal whitespace
  run of it becomes a single space, in one pass over the string: the result has no two
  whitespace characters in a row and is still trimmed. Otherwise the result is the
  serialized text with only the whitespace at its two ends taken off.
\<close>

theorem whitespace_collapse_after_serialization:
  assumes "\<not> endsWith (entry_id e) ''.mdx''" and "\<not> rawMDX"
    and "renderToString ext e = Some html"
    and "htmlToMarkdownPipeline ext m shouldMinify html = Some file"
  shows "entryToSimpleMarkdown ext rawMDX m e shouldMinify
           = Some (if shouldMinify \<and> opt_whitespace m then collapse_runs (trim file)
                   else trim file)
         \<and> concat (runs (trim file)) = trim file
         \<and> \<not> adjacent_ws (collapse_runs (trim file))
         \<and> trimmed (collapse_runs (trim file))
         \<and> trimmed (trim file)
         \<and> (\<exists>l r. file = l @ trim file @ r \<and> list_all is_ws l \<and> list_all is_ws r)"
proof -
  have "entryToSimpleMarkdown ext rawMDX m e shouldMinify
           = Some (if shouldMinify \<and> opt_whitespace m then collapse_runs (trim file)
                   else trim file)"
    using assms by (simp add: entryToSimpleMarkdown_def collapse_eq_runs Let_def)
  moreover have "concat (runs (trim file)) = trim file"
    by (rule concat_runs)
  moreover have "\<not> adjacent_ws (collapse_runs (trim file))"
    using no_adjacent_ws_collapse[of "trim file"] by (simp add: collapse_eq_runs)
  moreover have "trimmed (collapse_runs (trim file))"
    using trimmed_collapse[OF trimmed_trim[of "file"]] by (simp add: collapse_eq_runs)
  moreover have "trimmed (trim file)" by (rule trimmed_trim)
  moreover have "\<exists>l r. file = l @ trim file @ r \<and> list_all is_ws l \<and> list_all is_ws r"
  proof (intro exI conjI)
    show "file = takeWhile is_ws file @ trim file
            @ rev (takeWhile is_ws (rev (dropWhile is_ws file)))"
      by (rule trim_decomp)
    show "list_all is_ws (takeWhile is_ws file)"
      by (auto simp: list_all_iff dest: set_takeWhileD)
    show "list_all is_ws (rev (takeWhile is_ws (rev (dropWhile is_ws file))))"
      by (auto simp: list_all_iff dest: set_takeWhileD)
  qed
  ultimately show ?thesis by blast
qed

text \<open>
  A converter that yields a space, the letter a, a tab, a line feed, an em space, the
  letter b and a line feed: with minification the result is \<^verbatim>\<open>a b\<close>, without it the
  inner run of three whitespace characters is kept.
\<close>

theorem whitespace_collapse_after_serialization_witness:
  "\<not> endsWith (entry_id \<lparr>entry_id = ''page.md'', entry_body = None\<rparr>) ''.mdx''
   \<and> renderToString
        \<lparr>renderToString = (\<lambda>_. Some (js ''<p>a b</p>'')), rehypeParse = (\<lambda>_. Root []),
         toMarkdown = (\<lambda>_. Some [0x20, 0x61, 0x9, 0xA, 0x2003, 0x62, 0xA])\<rparr>
        \<lparr>entry_id = ''page.md'', entry_body = None\<rparr> = Some (js ''<p>a b</p>'')
   \<and> htmlToMarkdownPipeline
        \<lparr>renderToString = (\<lambda>_. Some (js ''<p>a b</p>'')), rehypeParse = (\<lambda>_. Root []),
         toMarkdown = (\<lambda>_. Some [0x20, 0x61, 0x9, 0xA, 0x2003, 0x62, 0xA])\<rparr>
        minifyDefaults True (js ''<p>a b</p>'')
      = Some [0x20, 0x61, 0x9, 0xA, 0x2003, 0x62, 0xA]
   \<and> entryToSimpleMarkdown
        \<lparr>renderToString = (\<lambda>_. Some (js ''<p>a b</p>'')), rehypeParse = (\<lambda>_. Root []),
         toMarkdown = (\<lambda>_. Some [0x20, 0x61, 0x9, 0xA, 0x2003, 0x62, 0xA])\<rparr>
        False minifyDefaults \<lparr>entry_id = ''page.md'', entry_body = None\<rparr> True
      = Some (js ''a b'')
   \<and> entryToSimpleMarkdown
        \<lparr>renderToString = (\<lambda>_. Some (js ''<p>a b</p>'')), rehypeParse = (\<lambda>_. Root []),
         toMarkdown = (\<lambda>_. Some [0x20, 0x61, 0x9, 0xA, 0x2003, 0x62, 0xA])\<rparr>
        False minifyDefaults \<lparr>entry_id = ''page.md'', entry_body = None\<rparr> False
      = Some [0x61, 0x9, 0xA, 0x2003, 0x62]"
proof -
  let ?ext = "\<lparr>renderToString = (\<lambda>_. Some (js ''<p>a b</p>'')),
      rehypeParse = (\<lambda>_. Root []),
      toMarkdown = (\<lambda>_. Some [0x20, 0x61, 0x9, 0xA, 0x2003, 0x62, 0xA :: code_unit])\<rparr>"
  let ?e = "\<lparr>entry_id = ''page.md'', entry_body = None\<rparr>"
  have h1: "\<not> endsWith (entry_id ?e) ''.mdx''"
    by (simp add: endsWith_def)
  have h2: "renderToString ?ext ?e = Some (js ''<p>a b</p>'')"
    by simp
  have h3: "htmlToMarkdownPipeline ?ext minifyDefaults b (js ''<p>a b</p>'')
      = Some [0x20, 0x61, 0x9, 0xA, 0x2003, 0x62, 0xA]" for b
    by (simp add: htmlToMarkdownPipeline_def transform_def minifyLlmsTxt_def
        improveExpressiveCodeHandling_def improveTabsHandling_def
        improveFileTreeHandling_def)
  have c1: "collapse_runs (trim [0x20, 0x61, 0x9, 0xA, 0x2003, 0x62, 0xA]) = js ''a b''"
    by (simp add: collapse_runs_def trim_def js_def is_ws_def space_def)
  have c2: "trim [0x20, 0x61, 0x9, 0xA, 0x2003, 0x62, 0xA] = [0x61, 0x9, 0xA, 0x2003, 0x62]"
    by (simp add: trim_def is_ws_def)
  have w: "opt_whitespace minifyDefaults"
    by (simp add: minifyDefaults_def)
  from whitespace_collapse_after_serialization[OF h1 _ h2 h3, of False True]
  have r1: "entryToSimpleMarkdown ?ext False minifyDefaults ?e True = Some (js ''a b'')"
    using w c1 by simp
  from whitespace_collapse_after_serialization[OF h1 _ h2 h3, of False False]
  have r2: "entryToSimpleMarkdown ?ext False minifyDefaults ?e False
      = Some [0x61, 0x9, 0xA, 0x2003, 0x62]"
    using c2 by simp
  show ?thesis using h1 h2 h3[of True] r1 r2 by simp
qed

section \<open>What the minify filter leaves in the tree\<close>



lemma same_head_is_element: "same_head a b \<Longrightarrow> is_element a = is_element b"
  by (cases a; cases b) (auto simp: is_element_def)

lemma own_simple_same_head:
  "own_simple s \<Longrightarrow> same_head a b \<Longrightarrow> matches_simple s a = matches_simple s b"
proof (induction s arbitrary: a b)
  case (Not sel)
  then have "\<And>cmp x. cmp \<in> set sel \<Longrightarrow> x \<in> set cmp \<Longrightarrow> matches_simple x a = matches_simple x b"
    by (auto simp: list_all_iff)
  then show ?case by (auto simp: list_ex_iff list_all_iff)
next
  case (TagIs t)
  then show ?case by (cases a; cases b) auto
next
  case (HasClass k)
  then show ?case by (cases a; cases b) auto
next
  case (AttrIs x v)
  then show ?case by (cases a; cases b) auto
next
  case (Has sel)
  then show ?case by simp
qed

lemma own_only_same_head:
  assumes "own_only sel" and "same_head a b"
  shows "matches sel a = matches sel b"
proof -
  have "matches_simple x a = matches_simple x b" if "cmp \<in> set sel" "x \<in> set cmp" for cmp x
  proof -
    from that assms(1) have "own_simple x" by (auto simp: own_only_def list_all_iff)
    then show ?thesis using assms(2) by (rule own_simple_same_head)
  qed
  then show ?thesis
    using same_head_is_element[OF assms(2)]
    by (auto simp: matches_def list_ex_iff list_all_iff)
qed

lemma descendants_self: "n \<in> set (descendants n)"
  by (cases n) auto

lemma remove_origin:
  "remove_node test n = Some n' \<Longrightarrow> d' \<in> set (descendants n') \<Longrightarrow>
     \<exists>d \<in> set (descendants n). \<not> test d \<and> same_head d d'"
  "d' \<in> set (concat (map descendants (remove_children test ns))) \<Longrightarrow>
     \<exists>d \<in> set (concat (map descendants ns)). \<not> test d \<and> same_head d d'"
proof (induction test n and test ns arbitrary: n' d' and d'
    rule: remove_node_remove_children.induct)
  case (1 test t c p cs)
  let ?n = "Element t c p cs"
  from 1(2) have nt: "\<not> test ?n" by (auto split: if_splits)
  show ?case
  proof (cases "cs = []")
    case True
    with 1(2,3) nt show ?thesis by (auto split: if_splits)
  next
    case False
    with 1(2) nt obtain k ks where ks: "remove_children test cs = k # ks"
      and n': "n' = Element t c p (k # ks)"
      by (auto split: if_splits list.splits)
    from 1(3) n' consider "d' = n'" | "d' \<in> set (concat (map descendants (k # ks)))"
      by auto
    then show ?thesis
    proof cases
      case 1
      then show ?thesis using nt n' by auto
    next
      case 2
      then have "d' \<in> set (concat (map descendants (remove_children test cs)))"
        using ks by simp
      from "1.IH"[OF nt False this] show ?thesis by auto
    qed
  qed
next
  case (2 test v)
  then show ?case by (auto split: if_splits)
next
  case (3 test v)
  then show ?case by (auto split: if_splits)
next
  case (4 test)
  then show ?case by (auto split: if_splits)
next
  case (5 test)
  then show ?case by simp
next
  case (6 test n ns)
  show ?case
  proof (cases "remove_node test n")
    case None
    with "6.prems" have "d' \<in> set (concat (map descendants (remove_children test ns)))"
      by simp
    from "6.IH"(2)[OF None this] show ?thesis by auto
  next
    case (Some n')
    with "6.prems" consider "d' \<in> set (descendants n')"
      | "d' \<in> set (concat (map descendants (remove_children test ns)))" by auto
    then show ?thesis
    proof cases
      case 1
      from "6.IH"(1)[OF Some 1] show ?thesis by auto
    next
      case 2
      from "6.IH"(3)[OF Some 2] show ?thesis by auto
    qed
  qed
qed

lemma remove_node_test: "test k \<Longrightarrow> remove_node test k = None"
  by (cases k) auto

lemma remove_children_skip:
  "test k \<Longrightarrow> remove_children test (xs @ k # ys) = remove_children test (xs @ ys)"
  by (induction xs) (simp_all add: remove_node_test split: option.splits)

lemma own_only_fixed:
  "own_only sel_details" "own_only sel_aside" "own_only (sel_variant v)" "own_only sel_sr_only"
  by (simp_all add: own_only_def sel_details_def sel_aside_def sel_variant_def sel_sr_only_def)

text \<open>
  Claim C2, as amended. After the minify filter has run with minification requested, no
  node left in the tree, at any depth, matches \<^verbatim>\<open>details\<close> when that option is set, nor
  both \<^verbatim>\<open>.starlight-aside\<close> and the class selector of a variant whose option is set, nor a
  custom selector that looks at the element's own tag, classes and attributes only. A
  node that passes the test is dropped with everything below it: the children it stood
  among are filtered as if it were not there.
\<close>

theorem minify_removes_matching_subtrees:
  assumes "n \<in> set (root_nodes (minifyLlmsTxt m True tree))"
  shows "(opt_details m \<longrightarrow> \<not> matches sel_details n)
       \<and> (variant_flag m v \<longrightarrow> \<not> (matches sel_aside n \<and> matches (sel_variant v) n))
       \<and> (s \<in> set (customSelectors m) \<longrightarrow> own_only s \<longrightarrow> \<not> matches s n)
       \<and> (minify_test m k \<longrightarrow>
            remove_children (minify_test m) (xs @ k # ys)
            = remove_children (minify_test m) (xs @ ys))"
proof -
  from assms have "n \<in> set (concat (map descendants
      (remove_children (minify_test m) (rootChildren tree))))"
    by (simp add: root_nodes_def minifyLlmsTxt_def)
  then obtain d where d: "\<not> minify_test m d" "same_head d n"
    using remove_origin(2) by blast
  have sel: "\<not> matches s' d" if "s' \<in> set (selectors m)" for s'
    using d(1) that by (auto simp: minify_test_def list_ex_iff)
  have "\<not> matches sel_details n" if "opt_details m"
  proof -
    from that have "sel_details \<in> set (selectors m)" by (simp add: selectors_def)
    then have "\<not> matches sel_details d" by (rule sel)
    then show ?thesis using own_only_same_head[OF own_only_fixed(1) d(2)] by simp
  qed
  moreover have "\<not> (matches sel_aside n \<and> matches (sel_variant v) n)" if "variant_flag m v"
  proof -
    have "v \<in> set [Note, Tip, Caution, Danger]" by (cases v) simp_all
    with that d(1) have "\<not> (matches sel_aside d \<and> matches (sel_variant v) d)"
      unfolding minify_test_def list_ex_iff by blast
    then show ?thesis
      using own_only_same_head[OF own_only_fixed(2) d(2)]
        own_only_same_head[OF own_only_fixed(3) d(2), of v] by simp
  qed
  moreover have "\<not> matches s n" if "s \<in> set (customSelectors m)" "own_only s"
  proof -
    from that(1) have "s \<in> set (selectors m)" by (simp add: selectors_def)
    then have "\<not> matches s d" by (rule sel)
    then show ?thesis using own_only_same_head[OF that(2) d(2)] by simp
  qed
  moreover have "remove_children (minify_test m) (xs @ k # ys)
      = remove_children (minify_test m) (xs @ ys)" if "minify_test m k"
    using that by (rule remove_children_skip)
  ultimately show ?thesis by blast
qed

lemmas minify_eval = minifyLlmsTxt_def minify_test_def minifyDefaults_def selectors_def
      matches_def is_element_def sel_details_def sel_aside_def sel_variant_def root_nodes_def own_only_def

text \<open>
  Claim C2 as stated fails. An element that carries \<^verbatim>\<open>starlight-aside--note\<close> without
  \<^verbatim>\<open>starlight-aside\<close> stays, although the note option is set; and with the custom selector
  \<^verbatim>\<open>div:not(:has(details))\<close> a \<^verbatim>\<open>div\<close> is tested while it still holds its \<^verbatim>\<open>details\<close>
  child, stays, and matches the selector once the child is gone.
\<close>

theorem minify_leaves_matching_nodes_counterexample:
  "opt_note minifyDefaults
   \<and> minifyLlmsTxt minifyDefaults True
        (Root [Element ''div'' (Some [''starlight-aside--note'']) [] [Text (js ''x'')]])
      = Root [Element ''div'' (Some [''starlight-aside--note'']) [] [Text (js ''x'')]]
   \<and> matches (sel_variant Note)
        (Element ''div'' (Some [''starlight-aside--note'']) [] [Text (js ''x'')])
   \<and> minifyLlmsTxt
        (minifyDefaults\<lparr>customSelectors := [[[TagIs ''div'', Not [[Has [[TagIs ''details'']]]]]]]\<rparr>)
        True
        (Root [Element ''div'' None []
                 [Element ''details'' None [] [Text (js ''a'')], Text (js ''b'')]])
      = Root [Element ''div'' None [] [Text (js ''b'')]]
   \<and> matches [[TagIs ''div'', Not [[Has [[TagIs ''details'']]]]]]
        (Element ''div'' None [] [Text (js ''b'')])"
  by (simp add: minify_eval)

text \<open>
  A note aside, a section that loses both its children (and is dropped with them) and a
  paragraph: only the paragraph is left.
\<close>

theorem minify_removes_matching_subtrees_witness:
  "Element ''p'' None [] [Text (js ''kept'')]
     \<in> set (root_nodes (minifyLlmsTxt (minifyDefaults\<lparr>customSelectors := [[[HasClass ''ad'']]]\<rparr>) True
          (Root [Element ''aside'' (Some [''starlight-aside'', ''starlight-aside--note'']) []
                   [Element ''p'' None [] [Text (js ''note'')]],
                 Element ''section'' None []
                   [Element ''details'' None [] [Text (js ''more'')],
                    Element ''p'' (Some [''ad'']) [] [Text (js ''buy'')]],
                 Element ''p'' None [] [Text (js ''kept'')]])))
   \<and> minifyLlmsTxt (minifyDefaults\<lparr>customSelectors := [[[HasClass ''ad'']]]\<rparr>) True
          (Root [Element ''aside'' (Some [''starlight-aside'', ''starlight-aside--note'']) []
                   [Element ''p'' None [] [Text (js ''note'')]],
                 Element ''section'' None []
                   [Element ''details'' None [] [Text (js ''more'')],
                    Element ''p'' (Some [''ad'']) [] [Text (js ''buy'')]],
                 Element ''p'' None [] [Text (js ''kept'')]])
      = Root [Element ''p'' None [] [Text (js ''kept'')]]
   \<and> \<not> matches sel_details (Element ''p'' None [] [Text (js ''kept'')])
   \<and> \<not> matches [[HasClass ''ad'']] (Element ''p'' None [] [Text (js ''kept'')])"
proof -
  let ?m = "minifyDefaults\<lparr>customSelectors := [[[HasClass ''ad'']]]\<rparr>"
  let ?t = "Root [Element ''aside'' (Some [''starlight-aside'', ''starlight-aside--note'']) []
                   [Element ''p'' None [] [Text (js ''note'')]],
                 Element ''section'' None []
                   [Element ''details'' None [] [Text (js ''more'')],
                    Element ''p'' (Some [''ad'']) [] [Text (js ''buy'')]],
                 Element ''p'' None [] [Text (js ''kept'')]]"
  let ?p = "Element ''p'' None [] [Text (js ''kept'')]"
  have r: "minifyLlmsTxt ?m True ?t = Root [?p]"
    by (simp add: minify_eval)
  then have h: "?p \<in> set (root_nodes (minifyLlmsTxt ?m True ?t))"
    by (simp add: root_nodes_def)
  have o: "opt_details ?m" "[[HasClass ''ad'']] \<in> set (customSelectors ?m)"
    "own_only [[HasClass ''ad'']]"
    by (simp_all add: minifyDefaults_def own_only_def)
  from minify_removes_matching_subtrees[OF h, of Note "[[HasClass ''ad'']]"] o
  have "\<not> matches sel_details ?p \<and> \<not> matches [[HasClass ''ad'']] ?p"
    by blast
  with h r show ?thesis by simp
qed

section \<open>Subtrees without a kind of node\<close>

text \<open>
  An update of the first node that passes a test keeps a subtree free of the nodes with
  a property \<open>Q\<close>, when \<open>Q\<close> looks at the head of a node only and the update itself keeps
  subtrees free of such nodes.
\<close>

lemma selectAll_only_self:
  assumes "selectAll sel n = [n]"
  shows "matches sel n" and "list_all (\<lambda>d. \<not> matches sel d) (tl (descendants n))"
proof -
  show m: "matches sel n"
  proof (rule ccontr)
    assume nm: "\<not> matches sel n"
    have "n \<in> set (selectAll sel n)" using assms by simp
    with nm have "size n < size n" by (rule selectAll_smaller)
    then show False by simp
  qed
  have "filter (matches sel) (descendants n)
      = filter (matches sel) (n # tl (descendants n))"
    by (cases n) simp_all
  with m have "selectAll sel n = n # filter (matches sel) (tl (descendants n))"
    by (simp add: selectAll_def)
  with assms have "filter (matches sel) (tl (descendants n)) = []" by simp
  then show "list_all (\<lambda>d. \<not> matches sel d) (tl (descendants n))"
    by (simp add: filter_empty_conv list_all_iff)
qed

lemma free_children:
  "list_all (\<lambda>d. \<not> Q d) (tl (descendants (Element t c p cs)))
   \<longleftrightarrow> (\<forall>k \<in> set cs. list_all (\<lambda>d. \<not> Q d) (descendants k))"
  by (auto simp: list_all_iff)

lemma free_node:
  "list_all (\<lambda>d. \<not> Q d) (descendants n)
   \<longleftrightarrow> \<not> Q n \<and> list_all (\<lambda>d. \<not> Q d) (tl (descendants n))"
  by (cases n) simp_all

lemma modify_first_free:
  "(\<And>a b. same_head a b \<Longrightarrow> Q a = Q b) \<Longrightarrow>
   (\<And>x. list_all (\<lambda>d. \<not> Q d) (descendants x) \<Longrightarrow> list_all (\<lambda>d. \<not> Q d) (descendants (f x))) \<Longrightarrow>
   (\<And>x. list_all (\<lambda>d. \<not> Q d) (tl (descendants x)) \<Longrightarrow>
      list_all (\<lambda>d. \<not> Q d) (tl (descendants (f x)))) \<Longrightarrow>
   modify_first P f n = Some n' \<Longrightarrow>
   (list_all (\<lambda>d. \<not> Q d) (descendants n) \<longrightarrow> list_all (\<lambda>d. \<not> Q d) (descendants n'))
   \<and> (list_all (\<lambda>d. \<not> Q d) (tl (descendants n)) \<longrightarrow>
        list_all (\<lambda>d. \<not> Q d) (tl (descendants n')))"
  "(\<And>a b. same_head a b \<Longrightarrow> Q a = Q b) \<Longrightarrow>
   (\<And>x. list_all (\<lambda>d. \<not> Q d) (descendants x) \<Longrightarrow> list_all (\<lambda>d. \<not> Q d) (descendants (f x))) \<Longrightarrow>
   (\<And>x. list_all (\<lambda>d. \<not> Q d) (tl (descendants x)) \<Longrightarrow>
      list_all (\<lambda>d. \<not> Q d) (tl (descendants (f x)))) \<Longrightarrow>
   modify_first_list P f ns = Some ns' \<Longrightarrow>
   (\<forall>k \<in> set ns. list_all (\<lambda>d. \<not> Q d) (descendants k)) \<Longrightarrow>
   (\<forall>k \<in> set ns'. list_all (\<lambda>d. \<not> Q d) (descendants k))"
proof (induction P f n and P f ns arbitrary: n' and ns'
    rule: modify_first_modify_first_list.induct)
  case (1 P f t c p cs)
  show ?case
  proof (cases "P (Element t c p cs)")
    case True
    with "1.prems"(4) have "n' = f (Element t c p cs)" by simp
    with "1.prems"(2,3) show ?thesis by blast
  next
    case False
    with "1.prems"(4) obtain cs' where cs': "modify_first_list P f cs = Some cs'"
      "n' = Element t c p cs'" by auto
    have kids: "\<forall>k \<in> set cs'. list_all (\<lambda>d. \<not> Q d) (descendants k)"
      if "\<forall>k \<in> set cs. list_all (\<lambda>d. \<not> Q d) (descendants k)"
      using "1.IH"[OF False "1.prems"(1,2,3) cs'(1) that] .
    have "Q (Element t c p cs') = Q (Element t c p cs)"
      using "1.prems"(1)[of "Element t c p cs'" "Element t c p cs"] by simp
    with kids show ?thesis
      unfolding cs'(2) free_node[of Q "Element t c p cs'"] free_node[of Q "Element t c p cs"]
        free_children by blast
  qed
next
  case (2 P f v)
  from "2.prems"(4) have "n' = f (Text v)" by (simp split: if_splits)
  with "2.prems"(2,3) show ?case by blast
next
  case (3 P f v)
  from "3.prems"(4) have "n' = f (Comment v)" by (simp split: if_splits)
  with "3.prems"(2,3) show ?case by blast
next
  case (4 P f)
  from "4.prems"(4) have "n' = f (Doctype)" by (simp split: if_splits)
  with "4.prems"(2,3) show ?case by blast
next
  case (5 P f)
  from "5.prems"(4) show ?case by simp
next
  case (6 P f n ns)
  show ?case
  proof (cases "modify_first P f n")
    case None
    with "6.prems"(4) obtain ms where ms: "modify_first_list P f ns = Some ms" "ns' = n # ms"
      by auto
    from "6.prems"(5) have "\<forall>k \<in> set ns. list_all (\<lambda>d. \<not> Q d) (descendants k)"
      by simp
    from "6.IH"(2)[OF None "6.prems"(1,2,3) ms(1) this] "6.prems"(5) ms(2)
    show ?thesis by simp
  next
    case (Some m)
    with "6.prems"(4) have ns': "ns' = m # ns" by simp
    from "6.IH"(1)[OF "6.prems"(1,2,3) Some] "6.prems"(5) ns'
    show ?thesis by simp
  qed
qed

lemma free_of_Element:
  "free_of Q (Element t c p cs) \<longleftrightarrow> \<not> Q (Element t c p cs) \<and> (\<forall>k \<in> set cs. free_of Q k)"
  by (auto simp: free_of_def list_all_iff)

lemma free_below_Element:
  "free_below Q (Element t c p cs) \<longleftrightarrow> (\<forall>k \<in> set cs. free_of Q k)"
  by (auto simp: free_of_def free_below_def list_all_iff)

lemma free_of_leaf:
  "free_of Q (Text v) \<longleftrightarrow> \<not> Q (Text v)" "free_of Q (Comment v) \<longleftrightarrow> \<not> Q (Comment v)"
  "free_of Q Doctype \<longleftrightarrow> \<not> Q Doctype"
  "free_below Q (Text v)" "free_below Q (Comment v)" "free_below Q Doctype"
  by (simp_all add: free_of_def free_below_def)

lemma modify_first_keeps_free:
  assumes "\<forall>a b. same_head a b \<longrightarrow> Q a = Q b"
    and "\<forall>x. free_of Q x \<longrightarrow> free_of Q (f x)"
    and "\<forall>x. free_below Q x \<longrightarrow> free_below Q (f x)"
    and "modify_first P f n = Some n'"
  shows "free_of Q n \<Longrightarrow> free_of Q n'" and "free_below Q n \<Longrightarrow> free_below Q n'"
  using modify_first_free(1)[of Q f P n n'] assms
  unfolding free_of_def free_below_def by blast+

lemma free_of_kids:
  assumes "\<forall>a b. same_head a b \<longrightarrow> Q a = Q b"
    and "free_of Q (Element t c p cs)" and "\<forall>k \<in> set cs'. free_of Q k"
  shows "free_of Q (Element t c p cs')"
  using assms(2,3) assms(1)[rule_format, of "Element t c p cs'" "Element t c p cs"]
  by (simp add: free_of_Element)

section \<open>What the tabs flattener builds\<close>

lemma those_map_Some:
  "(\<And>x. x \<in> set xs \<Longrightarrow> \<exists>y. f x = Some y) \<Longrightarrow>
   \<exists>ys. those (map f xs) = Some ys \<and> length ys = length xs
        \<and> (\<forall>i < length xs. f (xs ! i) = Some (ys ! i))"
proof (induction xs)
  case Nil
  then show ?case by simp
next
  case (Cons x xs)
  from Cons.prems obtain y where y: "f x = Some y" by auto
  from Cons.IH Cons.prems obtain ys where ys: "those (map f xs) = Some ys"
    "length ys = length xs" "\<forall>i < length xs. f (xs ! i) = Some (ys ! i)"
    by auto
  have "\<forall>i < length (x # xs). f ((x # xs) ! i) = Some ((y # ys) ! i)"
    using y ys(3) by (auto simp: nth_Cons split: nat.splits)
  with y ys show ?case by auto
qed

lemma those_map_id:
  "(\<And>x. x \<in> set xs \<Longrightarrow> f x = Some x) \<Longrightarrow> those (map f xs) = Some xs"
  by (induction xs) auto

lemma descendants_trans:
  "d \<in> set (descendants k) \<Longrightarrow> k \<in> set (descendants n) \<Longrightarrow> d \<in> set (descendants n)"
proof (induction n arbitrary: k)
  case (Element t c p cs)
  then show ?case by (cases "k = Element t c p cs") auto
qed auto

lemma no_panel_instance_descendant:
  "no_panel_instance n \<Longrightarrow> k \<in> set (descendants n) \<Longrightarrow> no_panel_instance k"
  unfolding no_panel_instance_def list_all_iff using descendants_trans by blast

lemma tabs_node_total: "no_panel_instance n \<Longrightarrow> \<exists>r. tabs_node n = Some r"
proof (induction n rule: tabs_node.induct)
  case (1 t c p cs)
  let ?n = "Element t c p cs"
  show ?case
  proof (cases "matches sel_tabs ?n")
    case True
    with 1(3) have np: "\<not> matches sel_tabpanel ?n"
      by (auto simp: no_panel_instance_def)
    let ?f = "\<lambda>(tab, panel). map_option (tabItem tab) (tabs_node panel)"
    have "\<exists>y. ?f x = Some y" if "x \<in> set (zip (tabs_of ?n) (selectAll sel_tabpanel ?n))" for x
    proof -
      obtain tab panel where x: "x = (tab, panel)" by (cases x)
      with that have "panel \<in> set (selectAll sel_tabpanel ?n)" by (auto dest: set_zip_rightD)
      then have "panel \<in> set (descendants ?n)" unfolding selectAll_def by (meson filter_is_subset subsetD)
      with 1(3) have "no_panel_instance panel" by (rule no_panel_instance_descendant)
      with 1(1)[OF True _ that x[symmetric]] np obtain q where "tabs_node panel = Some q"
        by auto
      with x show ?thesis by simp
    qed
    from those_map_Some[of _ ?f, OF this] obtain ys where
      "those (map ?f (zip (tabs_of ?n) (selectAll sel_tabpanel ?n))) = Some ys" by blast
    with True np show ?thesis by simp
  next
    case False
    have "\<exists>y. tabs_node x = Some y" if "x \<in> set cs" for x
    proof -
      from that have "x \<in> set (descendants ?n)" using descendants_self by auto
      with 1(3) have "no_panel_instance x" by (rule no_panel_instance_descendant)
      with 1(2)[OF False that] show ?thesis .
    qed
    from those_map_Some[of cs tabs_node, OF this] obtain ys where
      "those (map tabs_node cs) = Some ys" by blast
    with False show ?thesis by simp
  qed
qed simp_all

lemma tabs_node_id:
  "list_all (\<lambda>e. \<not> matches sel_tabs e) (descendants n) \<Longrightarrow> tabs_node n = Some n"
proof (induction n rule: tabs_node.induct)
  case (1 t c p cs)
  let ?n = "Element t c p cs"
  from 1(3) have nt: "\<not> matches sel_tabs ?n" by simp
  have "tabs_node x = Some x" if "x \<in> set cs" for x
  proof -
    have "list_all (\<lambda>e. \<not> matches sel_tabs e) (descendants x)"
      using 1(3) that by (auto simp: list_all_iff)
    with 1(2)[OF nt that] show ?thesis .
  qed
  then have "those (map tabs_node cs) = Some cs" by (rule those_map_id)
  with nt show ?case by simp
qed simp_all

lemma length_tabs_of: "length (tabs_of n) = length (selectAll sel_tab n)"
  by (cases n) (auto simp: tabs_of_def selectAll_def matches_def is_element_def)

lemma tabs_of_selectAll: "\<not> matches sel_tab n \<Longrightarrow> tabs_of n = selectAll sel_tab n"
  by (cases n) (auto simp: tabs_of_def selectAll_def matches_def is_element_def)

lemma tabLabel_spec:
  "tabLabel (Element t c p cs)
   = concat (filter (\<lambda>v. v \<noteq> []) (map trim (List.map_filter text_value cs)))"
  by (simp add: tabLabel_def filter_map comp_def)

text \<open>
  The flattener rebuilds the elements that are no tabs widgets around their flattened
  children, so a widget that lies in no other widget is found flattened at the place it
  had.
\<close>

lemma those_map_nth:
  "those (map f xs) = Some ys \<Longrightarrow>
     length ys = length xs \<and> (\<forall>i < length xs. f (xs ! i) = Some (ys ! i))"
proof (induction xs arbitrary: ys)
  case Nil
  then show ?case by simp
next
  case (Cons x xs)
  from Cons.prems obtain y zs where y: "f x = Some y" and zs: "those (map f xs) = Some zs"
    and ys: "ys = y # zs"
    by (auto split: option.splits)
  from Cons.IH[OF zs] y ys show ?case by (auto simp: nth_Cons split: nat.splits)
qed

lemma tabs_node_outside:
  "\<not> matches sel_tabs (Element t c p ks)
    \<Longrightarrow> tabs_node (Element t c p ks) = map_option (Element t c p) (those (map tabs_node ks))"
  by simp

lemma node_at_tabs:
  "node_at cs path = Some n \<Longrightarrow> outside sel_tabs cs path
    \<Longrightarrow> those (map tabs_node cs) = Some cs'
    \<Longrightarrow> \<exists>n'. tabs_node n = Some n' \<and> node_at cs' path = Some n'"
proof (induction cs path arbitrary: cs' rule: node_at.induct)
  case (1 cs)
  then show ?case by simp
next
  case (2 cs i)
  from "2.prems"(1) have i: "i < length cs" and n: "n = cs ! i" by (auto split: if_splits)
  from those_map_nth[OF "2.prems"(3)] i n show ?case by simp
next
  case (3 cs i j path)
  from "3.prems"(1) obtain t c p ks where e: "cs ! i = Element t c p ks" and i: "i < length cs"
    by (auto split: node.splits if_splits)
  have nm: "\<not> matches sel_tabs (Element t c p ks)"
    using "3.prems"(2) e by simp
  from those_map_nth[OF "3.prems"(3)] i
  have l: "length cs' = length cs" and r: "tabs_node (cs ! i) = Some (cs' ! i)" by simp_all
  from r obtain ks' where ks': "those (map tabs_node ks) = Some ks'"
    and ci: "cs' ! i = Element t c p ks'"
    unfolding e tabs_node_outside[OF nm] by auto
  have "node_at ks (j # path) = Some n" "outside sel_tabs ks (j # path)"
    using "3.prems"(1,2) e i by simp_all
  from "3.IH"[OF i e this ks'] obtain n' where
    "tabs_node n = Some n'" "node_at ks' (j # path) = Some n'" by blast
  then show ?case using i l ci by simp
qed

lemma tabs_list_total:
  "list_all no_panel_instance cs \<Longrightarrow> \<exists>cs'. those (map tabs_node cs) = Some cs'"
  using those_map_Some[of cs tabs_node] tabs_node_total
  by (metis list_all_iff)

lemma tabs_widget_shape:
  assumes "matches sel_tabs inst" and "\<not> matches sel_tab inst"
    and "tabs_node inst = Some n'"
  shows "\<exists>items. n' = Element ''ul'' None [] items
      \<and> length items
          = min (length (selectAll sel_tab inst)) (length (selectAll sel_tabpanel inst))
      \<and> (\<forall>i < length items. \<exists>panel'.
            tabs_node (selectAll sel_tabpanel inst ! i) = Some panel'
          \<and> items ! i
              = Element ''li'' None []
                  [Element ''p'' None [] [Text (tabLabel (selectAll sel_tab inst ! i))], panel']
          \<and> (selectAll sel_tabs (selectAll sel_tabpanel inst ! i) = []
               \<longrightarrow> panel' = selectAll sel_tabpanel inst ! i))"
proof -
  let ?tabs = "tabs_of inst" and ?panels = "selectAll sel_tabpanel inst"
  let ?f = "\<lambda>(tab, panel). map_option (tabItem tab) (tabs_node panel)"
  from assms(1) obtain t c p cs where inst: "inst = Element t c p cs"
    by (cases inst) (auto simp: matches_def is_element_def)
  have tabs: "?tabs = selectAll sel_tab inst"
    using assms(2) by (rule tabs_of_selectAll)
  from assms(1,3) obtain items where
    items: "those (map ?f (zip ?tabs ?panels)) = Some items"
    and res: "n' = Element ''ul'' None [] items"
    unfolding inst by (auto split: if_splits)
  from those_map_nth[OF items] have
    len0: "length items = length (zip ?tabs ?panels)"
    and nth: "\<forall>i < length (zip ?tabs ?panels). ?f (zip ?tabs ?panels ! i) = Some (items ! i)"
    by simp_all
  have len: "length items = min (length (selectAll sel_tab inst)) (length ?panels)"
    using len0 by (simp add: length_tabs_of)
  have item: "\<exists>panel'. tabs_node (?panels ! i) = Some panel'
          \<and> items ! i
              = Element ''li'' None []
                  [Element ''p'' None [] [Text (tabLabel (selectAll sel_tab inst ! i))], panel']
          \<and> (selectAll sel_tabs (?panels ! i) = [] \<longrightarrow> panel' = ?panels ! i)"
    if "i < length items" for i
  proof -
    from that len0 have i: "i < length ?tabs" "i < length ?panels" by simp_all
    from nth that len0 have "?f (zip ?tabs ?panels ! i) = Some (items ! i)" by simp
    with i obtain q where q: "tabs_node (?panels ! i) = Some q"
      and it: "items ! i = tabItem (selectAll sel_tab inst ! i) q"
      unfolding tabs by auto
    have "q = ?panels ! i" if "selectAll sel_tabs (?panels ! i) = []"
    proof -
      from that have "list_all (\<lambda>e. \<not> matches sel_tabs e) (descendants (?panels ! i))"
        by (simp add: selectAll_def filter_empty_conv list_all_iff)
      from tabs_node_id[OF this] q show ?thesis by simp
    qed
    with q it show ?thesis by (simp add: tabItem_def)
  qed
  show ?thesis using res len item by blast
qed

lemma tabs_single: "improveTabsHandling (Root [n]) = Some (Root [n']) \<longleftrightarrow> tabs_node n = Some n'"
  by (auto simp: improveTabsHandling_def split: option.splits)

text \<open>
  Claim C3, as amended. Take a tabs widget anywhere in the tree that does not lie inside
  another tabs widget and does not carry \<^verbatim>\<open>role="tab"\<close> itself, with \<open>N\<close> elements of
  role \<^verbatim>\<open>tab\<close> and \<open>M\<close> of role \<^verbatim>\<open>tabpanel\<close> at or below it. The flattener yields a tree
  whenever no \<^verbatim>\<open>starlight-tabs\<close> element of its input carries \<^verbatim>\<open>role="tabpanel"\<close> itself;
  and whenever it yields a tree, that tree holds, at the place of the widget, a \<^verbatim>\<open>ul\<close>
  without attributes whose children are exactly \<open>min N M\<close> list items, the \<open>i\<close>-th
  built from the \<open>i\<close>-th tab and the \<open>i\<close>-th panel: a paragraph holding the tab's
  label, followed by the panel node, in which the tabs widgets are flattened as the
  flattener does it for the panel taken alone (a panel that holds none is the original
  panel node). The label is the concatenation of the tab's text children, each trimmed,
  the empty ones left out.
\<close>

theorem tabs_flattened_pairwise:
  assumes "node_at (rootChildren tree) path = Some inst"
    and "outside sel_tabs (rootChildren tree) path"
    and "matches sel_tabs inst" and "\<not> matches sel_tab inst"
  shows "(list_all no_panel_instance (rootChildren tree)
          \<longrightarrow> (\<exists>tree''. improveTabsHandling tree = Some tree''))
      \<and> (improveTabsHandling tree = Some tree' \<longrightarrow>
          (\<exists>items. node_at (rootChildren tree') path = Some (Element ''ul'' None [] items)
            \<and> length items
                = min (length (selectAll sel_tab inst)) (length (selectAll sel_tabpanel inst))
            \<and> (\<forall>i < length items. \<exists>panel'.
                  improveTabsHandling (Root [selectAll sel_tabpanel inst ! i])
                  = Some (Root [panel'])
                \<and> items ! i
                    = Element ''li'' None []
                        [Element ''p'' None [] [Text (tabLabel (selectAll sel_tab inst ! i))],
                         panel']
                \<and> (selectAll sel_tabs (selectAll sel_tabpanel inst ! i) = []
                     \<longrightarrow> panel' = selectAll sel_tabpanel inst ! i))))
      \<and> (\<forall>t c p cs. tabLabel (Element t c p cs)
            = concat (filter (\<lambda>v. v \<noteq> []) (map trim (List.map_filter text_value cs))))"
proof (intro conjI impI)
  assume "list_all no_panel_instance (rootChildren tree)"
  from tabs_list_total[OF this]
  show "\<exists>tree''. improveTabsHandling tree = Some tree''"
    by (auto simp: improveTabsHandling_def)
next
  assume "improveTabsHandling tree = Some tree'"
  then have cs': "those (map tabs_node (rootChildren tree)) = Some (rootChildren tree')"
    by (auto simp: improveTabsHandling_def)
  from node_at_tabs[OF assms(1,2) cs'] obtain n' where
    n': "tabs_node inst = Some n'" "node_at (rootChildren tree') path = Some n'" by blast
  from tabs_widget_shape[OF assms(3,4) n'(1)] n'(2)
  show "\<exists>items. node_at (rootChildren tree') path = Some (Element ''ul'' None [] items)
            \<and> length items
                = min (length (selectAll sel_tab inst)) (length (selectAll sel_tabpanel inst))
            \<and> (\<forall>i < length items. \<exists>panel'.
                  improveTabsHandling (Root [selectAll sel_tabpanel inst ! i])
                  = Some (Root [panel'])
                \<and> items ! i
                    = Element ''li'' None []
                        [Element ''p'' None [] [Text (tabLabel (selectAll sel_tab inst ! i))],
                         panel']
                \<and> (selectAll sel_tabs (selectAll sel_tabpanel inst ! i) = []
                     \<longrightarrow> panel' = selectAll sel_tabpanel inst ! i))"
    unfolding tabs_single by auto
next
  show "\<forall>t c p cs. tabLabel (Element t c p cs)
            = concat (filter (\<lambda>v. v \<noteq> []) (map trim (List.map_filter text_value cs)))"
    using tabLabel_spec by blast
qed

lemmas tabs_eval = improveTabsHandling_def tabs_of_def selectAll_def matches_def
  is_element_def sel_tabs_def sel_tab_def sel_tabpanel_def tabItem_def tabLabel_def
  List.map_filter_def trim_def is_ws_def js_def

text \<open>
  A widget below a wrapper element, with three tabs and two panels: the third tab has no
  panel and is left out; the icon and the whitespace-only text of the second tab do not
  reach its label.
\<close>

theorem tabs_flattened_pairwise_witness:
  "list_all no_panel_instance (rootChildren
     (Root [Element ''main'' None []
               [Element ''h1'' None [] [Text (js ''Install'')],
                Element ''starlight-tabs'' None []
                   [Element ''ul'' None [(''role'', ''tablist'')]
                       [Element ''li'' None [(''role'', ''presentation'')]
                           [Element ''a'' None [(''role'', ''tab'')] [Text (js ''npm'')]],
                        Element ''li'' None [(''role'', ''presentation'')]
                           [Element ''a'' None [(''role'', ''tab'')]
                               [Element ''svg'' None [] [],
                                Text (js '' pnpm ''),
                                Text (js ''  '')]],
                        Element ''li'' None [(''role'', ''presentation'')]
                           [Element ''a'' None [(''role'', ''tab'')] [Text (js ''yarn'')]]],
                    Element ''div'' None [(''role'', ''tabpanel'')]
                       [Element ''p'' None [] [Text (js ''npm install'')]],
                    Element ''div'' None [(''role'', ''tabpanel'')]
                       [Element ''p'' None [] [Text (js ''pnpm add'')]]]]]))
   \<and> node_at (rootChildren
     (Root [Element ''main'' None []
               [Element ''h1'' None [] [Text (js ''Install'')],
                Element ''starlight-tabs'' None []
                   [Element ''ul'' None [(''role'', ''tablist'')]
                       [Element ''li'' None [(''role'', ''presentation'')]
                           [Element ''a'' None [(''role'', ''tab'')] [Text (js ''npm'')]],
                        Element ''li'' None [(''role'', ''presentation'')]
                           [Element ''a'' None [(''role'', ''tab'')]
                               [Element ''svg'' None [] [],
                                Text (js '' pnpm ''),
                                Text (js ''  '')]],
                        Element ''li'' None [(''role'', ''presentation'')]
                           [Element ''a'' None [(''role'', ''tab'')] [Text (js ''yarn'')]]],
                    Element ''div'' None [(''role'', ''tabpanel'')]
                       [Element ''p'' None [] [Text (js ''npm install'')]],
                    Element ''div'' None [(''role'', ''tabpanel'')]
                       [Element ''p'' None [] [Text (js ''pnpm add'')]]]]]))
     [0, 1]
   = Some (Element ''starlight-tabs'' None []
            [Element ''ul'' None [(''role'', ''tablist'')]
                [Element ''li'' None [(''role'', ''presentation'')]
                    [Element ''a'' None [(''role'', ''tab'')] [Text (js ''npm'')]],
                 Element ''li'' None [(''role'', ''presentation'')]
                    [Element ''a'' None [(''role'', ''tab'')]
                        [Element ''svg'' None [] [],
                         Text (js '' pnpm ''),
                         Text (js ''  '')]],
                 Element ''li'' None [(''role'', ''presentation'')]
                    [Element ''a'' None [(''role'', ''tab'')] [Text (js ''yarn'')]]],
             Element ''div'' None [(''role'', ''tabpanel'')]
                [Element ''p'' None [] [Text (js ''npm install'')]],
             Element ''div'' None [(''role'', ''tabpanel'')]
                [Element ''p'' None [] [Text (js ''pnpm add'')]]])
   \<and> outside sel_tabs (rootChildren
     (Root [Element ''main'' None []
               [Element ''h1'' None [] [Text (js ''Install'')],
                Element ''starlight-tabs'' None []
                   [Element ''ul'' None [(''role'', ''tablist'')]
                       [Element ''li'' None [(''role'', ''presentation'')]
                           [Element ''a'' None [(''role'', ''tab'')] [Text (js ''npm'')]],
                        Element ''li'' None [(''role'', ''presentation'')]
                           [Element ''a'' None [(''role'', ''tab'')]
                               [Element ''svg'' None [] [],
                                Text (js '' pnpm ''),
                                Text (js ''  '')]],
                        Element ''li'' None [(''role'', ''presentation'')]
                           [Element ''a'' None [(''role'', ''tab'')] [Text (js ''yarn'')]]],
                    Element ''div'' None [(''role'', ''tabpanel'')]
                       [Element ''p'' None [] [Text (js ''npm install'')]],
                    Element ''div'' None [(''role'', ''tabpanel'')]
                       [Element ''p'' None [] [Text (js ''pnpm add'')]]]]]))
     [0, 1]
   \<and> matches sel_tabs
     (Element ''starlight-tabs'' None []
         [Element ''ul'' None [(''role'', ''tablist'')]
             [Element ''li'' None [(''role'', ''presentation'')]
                 [Element ''a'' None [(''role'', ''tab'')] [Text (js ''npm'')]],
              Element ''li'' None [(''role'', ''presentation'')]
                 [Element ''a'' None [(''role'', ''tab'')]
                     [Element ''svg'' None [] [],
                      Text (js '' pnpm ''),
                      Text (js ''  '')]],
              Element ''li'' None [(''role'', ''presentation'')]
                 [Element ''a'' None [(''role'', ''tab'')] [Text (js ''yarn'')]]],
          Element ''div'' None [(''role'', ''tabpanel'')]
             [Element ''p'' None [] [Text (js ''npm install'')]],
          Element ''div'' None [(''role'', ''tabpanel'')]
             [Element ''p'' None [] [Text (js ''pnpm add'')]]])
   \<and> \<not> matches sel_tab
     (Element ''starlight-tabs'' None []
         [Element ''ul'' None [(''role'', ''tablist'')]
             [Element ''li'' None [(''role'', ''presentation'')]
                 [Element ''a'' None [(''role'', ''tab'')] [Text (js ''npm'')]],
              Element ''li'' None [(''role'', ''presentation'')]
                 [Element ''a'' None [(''role'', ''tab'')]
                     [Element ''svg'' None [] [],
                      Text (js '' pnpm ''),
                      Text (js ''  '')]],
              Element ''li'' None [(''role'', ''presentation'')]
                 [Element ''a'' None [(''role'', ''tab'')] [Text (js ''yarn'')]]],
          Element ''div'' None [(''role'', ''tabpanel'')]
             [Element ''p'' None [] [Text (js ''npm install'')]],
          Element ''div'' None [(''role'', ''tabpanel'')]
             [Element ''p'' None [] [Text (js ''pnpm add'')]]])
   \<and> improveTabsHandling
     (Root [Element ''main'' None []
               [Element ''h1'' None [] [Text (js ''Install'')],
                Element ''starlight-tabs'' None []
                   [Element ''ul'' None [(''role'', ''tablist'')]
                       [Element ''li'' None [(''role'', ''presentation'')]
                           [Element ''a'' None [(''role'', ''tab'')] [Text (js ''npm'')]],
                        Element ''li'' None [(''role'', ''presentation'')]
                           [Element ''a'' None [(''role'', ''tab'')]
                               [Element ''svg'' None [] [],
                                Text (js '' pnpm ''),
                                Text (js ''  '')]],
                        Element ''li'' None [(''role'', ''presentation'')]
                           [Element ''a'' None [(''role'', ''tab'')] [Text (js ''yarn'')]]],
                    Element ''div'' None [(''role'', ''tabpanel'')]
                       [Element ''p'' None [] [Text (js ''npm install'')]],
                    Element ''div'' None [(''role'', ''tabpanel'')]
                       [Element ''p'' None [] [Text (js ''pnpm add'')]]]]])
   = Some (Root [Element ''main'' None []
                  [Element ''h1'' None [] [Text (js ''Install'')],
                   Element ''ul'' None []
                      [Element ''li'' None []
                          [Element ''p'' None [] [Text (js ''npm'')],
                           Element ''div'' None [(''role'', ''tabpanel'')]
                              [Element ''p'' None [] [Text (js ''npm install'')]]],
                       Element ''li'' None []
                          [Element ''p'' None [] [Text (js ''pnpm'')],
                           Element ''div'' None [(''role'', ''tabpanel'')]
                              [Element ''p'' None [] [Text (js ''pnpm add'')]]]]]])
   \<and> node_at (rootChildren
     (Root [Element ''main'' None []
               [Element ''h1'' None [] [Text (js ''Install'')],
                Element ''ul'' None []
                   [Element ''li'' None []
                       [Element ''p'' None [] [Text (js ''npm'')],
                        Element ''div'' None [(''role'', ''tabpanel'')]
                           [Element ''p'' None [] [Text (js ''npm install'')]]],
                    Element ''li'' None []
                       [Element ''p'' None [] [Text (js ''pnpm'')],
                        Element ''div'' None [(''role'', ''tabpanel'')]
                           [Element ''p'' None [] [Text (js ''pnpm add'')]]]]]]))
     [0, 1]
   = Some (Element ''ul'' None []
            [Element ''li'' None []
                [Element ''p'' None [] [Text (js ''npm'')],
                 Element ''div'' None [(''role'', ''tabpanel'')]
                    [Element ''p'' None [] [Text (js ''npm install'')]]],
             Element ''li'' None []
                [Element ''p'' None [] [Text (js ''pnpm'')],
                 Element ''div'' None [(''role'', ''tabpanel'')]
                    [Element ''p'' None [] [Text (js ''pnpm add'')]]]])"
proof -
  let ?panel1 = "Element ''div'' None [(''role'', ''tabpanel'')]
                    [Element ''p'' None [] [Text (js ''npm install'')]]"
  let ?panel2 = "Element ''div'' None [(''role'', ''tabpanel'')]
                    [Element ''p'' None [] [Text (js ''pnpm add'')]]"
  let ?inst = "Element ''starlight-tabs'' None []
                  [Element ''ul'' None [(''role'', ''tablist'')]
                      [Element ''li'' None [(''role'', ''presentation'')]
                          [Element ''a'' None [(''role'', ''tab'')] [Text (js ''npm'')]],
                       Element ''li'' None [(''role'', ''presentation'')]
                          [Element ''a'' None [(''role'', ''tab'')]
                              [Element ''svg'' None [] [],
                               Text (js '' pnpm ''),
                               Text (js ''  '')]],
                       Element ''li'' None [(''role'', ''presentation'')]
                          [Element ''a'' None [(''role'', ''tab'')] [Text (js ''yarn'')]]],
                   ?panel1,
                   ?panel2]"
  let ?ul = "Element ''ul'' None []
                [Element ''li'' None []
                    [Element ''p'' None [] [Text (js ''npm'')],
                     ?panel1],
                 Element ''li'' None []
                    [Element ''p'' None [] [Text (js ''pnpm'')],
                     ?panel2]]"
  let ?tree = "Root [Element ''main'' None [] [Element ''h1'' None [] [Text (js ''Install'')], ?inst]]"
  let ?tree' = "Root [Element ''main'' None [] [Element ''h1'' None [] [Text (js ''Install'')], ?ul]]"
  have h1: "list_all no_panel_instance (rootChildren ?tree)"
    by (simp add: no_panel_instance_def matches_def is_element_def sel_tabs_def
        sel_tabpanel_def)
  have h2: "node_at (rootChildren ?tree) [0, 1] = Some ?inst"
    by simp
  have h3: "outside sel_tabs (rootChildren ?tree) [0, 1]"
    by (simp add: matches_def is_element_def sel_tabs_def)
  have h4: "matches sel_tabs ?inst"
    by (simp add: matches_def is_element_def sel_tabs_def)
  have h5: "\<not> matches sel_tab ?inst"
    by (simp add: matches_def is_element_def sel_tab_def)
  have e: "improveTabsHandling ?tree = Some ?tree'"
    by (simp add: tabs_eval)
  from tabs_flattened_pairwise[OF h2 h3 h4 h5, of ?tree'] h1 e obtain items where
    "node_at (rootChildren ?tree') [0, 1] = Some (Element ''ul'' None [] items)"
    by blast
  then have "node_at (rootChildren ?tree') [0, 1] = Some ?ul" by simp
  with h1 h2 h3 h4 h5 e show ?thesis by simp
qed

text \<open>
  Claim C3 as stated fails in three ways. A widget that itself carries \<^verbatim>\<open>role="tab"\<close>
  is its own first tab, and its label is read after its children were replaced: the
  label is empty where the text of the widget was \<^verbatim>\<open>lbl\<close>. A widget that itself carries
  \<^verbatim>\<open>role="tabpanel"\<close> and has a tab is put into its own first entry, which is no tree.
  And a widget inside another one, outside the panels of that one, is not in the
  result: the outer widget keeps its panels only, here the panel of the inner widget
  beside the first label of the outer one.
\<close>

theorem tabs_label_lost_counterexample:
  "improveTabsHandling
     (Root [Element ''starlight-tabs'' None [(''role'', ''tab'')]
               [Text (js ''lbl''),
                Element ''div'' None [(''role'', ''tabpanel'')] [Text (js ''body'')]]])
   = Some (Root [Element ''ul'' None []
                  [Element ''li'' None []
                      [Element ''p'' None [] [Text (js '''')],
                       Element ''div'' None [(''role'', ''tabpanel'')] [Text (js ''body'')]]]])
   \<and> selectAll sel_tab
     (Element ''starlight-tabs'' None [(''role'', ''tab'')]
         [Text (js ''lbl''),
          Element ''div'' None [(''role'', ''tabpanel'')] [Text (js ''body'')]]) ! 0
   = Element ''starlight-tabs'' None [(''role'', ''tab'')]
        [Text (js ''lbl''),
         Element ''div'' None [(''role'', ''tabpanel'')] [Text (js ''body'')]]
   \<and> tabLabel
     (Element ''starlight-tabs'' None [(''role'', ''tab'')]
         [Text (js ''lbl''),
          Element ''div'' None [(''role'', ''tabpanel'')] [Text (js ''body'')]]) = js ''lbl''
   \<and> js ''lbl'' \<noteq> js ''''
   \<and> improveTabsHandling
     (Root [Element ''starlight-tabs'' None [(''role'', ''tabpanel'')]
               [Element ''a'' None [(''role'', ''tab'')] [Text (js ''lbl'')]]]) = None
   \<and> improveTabsHandling
     (Root [Element ''starlight-tabs'' None []
               [Element ''a'' None [(''role'', ''tab'')]
                   [Text (js ''x''),
                    Element ''starlight-tabs'' None []
                       [Element ''a'' None [(''role'', ''tab'')] [Text (js ''y'')],
                        Element ''div'' None [(''role'', ''tabpanel'')] [Text (js ''z'')]]],
                Element ''div'' None [(''role'', ''tabpanel'')] [Text (js ''p'')]]])
   = Some (Root [Element ''ul'' None []
                  [Element ''li'' None []
                      [Element ''p'' None [] [Text (js ''x'')],
                       Element ''div'' None [(''role'', ''tabpanel'')] [Text (js ''z'')]],
                   Element ''li'' None []
                      [Element ''p'' None [] [Text (js ''y'')],
                       Element ''div'' None [(''role'', ''tabpanel'')] [Text (js ''p'')]]]])"
  by (simp add: tabs_eval)

section \<open>What the code-block normalizer does to one code sample\<close>

lemma find_append_cases:
  "find P (xs @ ys) = (case find P xs of None \<Rightarrow> find P ys | Some x \<Rightarrow> Some x)"
  by (induction xs) auto

lemma modify_first_None:
  "modify_first P f n = None \<longleftrightarrow> find P (descendants n) = None"
  "modify_first_list P f ns = None \<longleftrightarrow> find P (concat (map descendants ns)) = None"
proof (induction P f n and P f ns rule: modify_first_modify_first_list.induct)
  case (6 P f n ns)
  then show ?case by (auto simp: find_append_cases split: option.splits)
qed auto

lemma modify_first_select:
  "(\<And>a b. same_head a b \<Longrightarrow> P a = P b) \<Longrightarrow> (\<And>x. P x \<Longrightarrow> P (f x)) \<Longrightarrow>
   find P (descendants n) = Some x \<Longrightarrow>
   \<exists>n'. modify_first P f n = Some n' \<and> find P (descendants n') = Some (f x)"
  "(\<And>a b. same_head a b \<Longrightarrow> P a = P b) \<Longrightarrow> (\<And>x. P x \<Longrightarrow> P (f x)) \<Longrightarrow>
   find P (concat (map descendants ns)) = Some x \<Longrightarrow>
   \<exists>ns'. modify_first_list P f ns = Some ns'
      \<and> find P (concat (map descendants ns')) = Some (f x)"
proof (induction P f n and P f ns arbitrary: x and x
    rule: modify_first_modify_first_list.induct)
  case (1 P f t c p cs)
  show ?case
  proof (cases "P (Element t c p cs)")
    case True
    with "1.prems"(3) have x: "x = Element t c p cs" by simp
    have "P (f (Element t c p cs))" using True "1.prems"(2) by blast
    then have "find P (descendants (f (Element t c p cs))) = Some (f (Element t c p cs))"
      by (cases "f (Element t c p cs)") auto
    with True x show ?thesis by simp
  next
    case False
    with "1.prems"(3) have "find P (concat (map descendants cs)) = Some x" by simp
    from "1.IH"[OF False "1.prems"(1,2) this] obtain cs' where
      cs': "modify_first_list P f cs = Some cs'"
      "find P (concat (map descendants cs')) = Some (f x)" by blast
    have "same_head (Element t c p cs) (Element t c p cs')" by simp
    with False "1.prems"(1) have "\<not> P (Element t c p cs')" by blast
    with cs' False show ?thesis by simp
  qed
next
  case (2 P f v)
  from "2.prems"(3) have px: "P (Text v)" "x = Text v" by (auto split: if_splits)
  then have "P (f (Text v))" using "2.prems"(2) by blast
  then have "find P (descendants (f (Text v))) = Some (f (Text v))"
    by (cases "f (Text v)") auto
  with px show ?case by simp
next
  case (3 P f v)
  from "3.prems"(3) have px: "P (Comment v)" "x = Comment v" by (auto split: if_splits)
  then have "P (f (Comment v))" using "3.prems"(2) by blast
  then have "find P (descendants (f (Comment v))) = Some (f (Comment v))"
    by (cases "f (Comment v)") auto
  with px show ?case by simp
next
  case (4 P f)
  from "4.prems"(3) have px: "P Doctype" "x = Doctype" by (auto split: if_splits)
  then have "P (f Doctype)" using "4.prems"(2) by blast
  then have "find P (descendants (f Doctype)) = Some (f Doctype)"
    by (cases "f Doctype") auto
  with px show ?case by simp
next
  case (5 P f)
  then show ?case by simp
next
  case (6 P f n ns)
  show ?case
  proof (cases "find P (descendants n)")
    case None
    then have mn: "modify_first P f n = None" by (simp add: modify_first_None)
    from None "6.prems"(3) have "find P (concat (map descendants ns)) = Some x"
      by (simp add: find_append_cases)
    from "6.IH"(2)[OF mn "6.prems"(1,2) this] obtain ns' where
      "modify_first_list P f ns = Some ns'"
      "find P (concat (map descendants ns')) = Some (f x)" by blast
    with mn None show ?thesis by (simp add: find_append_cases)
  next
    case (Some y)
    with "6.prems"(3) have "y = x" by (simp add: find_append_cases)
    with Some have "find P (descendants n) = Some x" by simp
    from "6.IH"(1)[OF "6.prems"(1,2) this] obtain n' where
      "modify_first P f n = Some n'" "find P (descendants n') = Some (f x)" by blast
    then show ?thesis by (simp add: find_append_cases)
  qed
qed

lemma own_only_used:
  "own_only sel_code" "own_only sel_pre" "own_only sel_span_not_indent"
  by (simp_all add: own_only_def sel_code_def sel_pre_def sel_span_not_indent_def)

lemma annotate_code_keeps_tag: "matches sel_code y \<Longrightarrow> matches sel_code (annotate_code lang y)"
  by (cases y) (auto simp: annotate_code_def Let_def matches_def is_element_def sel_code_def)

lemma code_step_select:
  assumes "select sel_pre x = Some pre" and "dataLanguage pre = Some lang" and "lang \<noteq> []"
    and "select sel_code x = Some code"
  shows "select sel_code (code_step x) = Some (annotate_code lang code)"
proof -
  from assms(4) have "find (matches sel_code) (descendants x) = Some code"
    by (simp add: select_def)
  from modify_first_select(1)[of "matches sel_code" "annotate_code lang", OF _ _ this]
  obtain x' where x': "modify_first (matches sel_code) (annotate_code lang) x = Some x'"
    "find (matches sel_code) (descendants x') = Some (annotate_code lang code)"
    using own_only_same_head[OF own_only_used(1)] annotate_code_keeps_tag by blast
  from assms(1-3) x'(1) have "code_step x = x'" by (simp add: code_step_def)
  with x'(2) show ?thesis by (simp add: select_def)
qed

lemma code_step_unchanged:
  assumes "select sel_pre x = None
     \<or> (\<exists>pre. select sel_pre x = Some pre \<and> (dataLanguage pre = None \<or> dataLanguage pre = Some []))
     \<or> select sel_code x = None"
  shows "code_step x = x"
proof -
  have "modify_first (matches sel_code) f x = None" if "select sel_code x = None" for f
    using that by (simp add: select_def modify_first_None)
  with assms show ?thesis
    by (auto simp: code_step_def split: option.splits)
qed

lemma prefix_text_keeps_head: "same_head x (prefix_text m x)"
  by (cases x) (auto simp: prefix_text_def split: list.splits node.splits)

lemma mark_line_first_text:
  assumes "first_text_run (Element lt (Some lc) lp lcs) = Some v"
  shows "first_text_run (mark_line (Element lt (Some lc) lp lcs)) = Some (diff_marker lc # v)"
proof -
  let ?line = "Element lt (Some lc) lp lcs" and ?m = "diff_marker lc"
  let ?P = "matches sel_span_not_indent"
  from assms obtain t c p rest where
    sp: "find ?P (descendants ?line) = Some (Element t c p (Text v # rest))"
    by (auto simp: first_text_run_def select_def split: option.splits node.splits list.splits)
  have keep: "?P (prefix_text ?m x)" if "?P x" for x
    using that own_only_same_head[OF own_only_used(3) prefix_text_keeps_head[of x ?m]] by simp
  from modify_first_select(1)[of ?P "prefix_text ?m", OF _ _ sp]
  obtain line' where l: "modify_first ?P (prefix_text ?m) ?line = Some line'"
    "find ?P (descendants line') = Some (prefix_text ?m (Element t c p (Text v # rest)))"
    using own_only_same_head[OF own_only_used(3)] keep by blast
  from l(1) have "mark_line ?line = line'"
    by (simp add: mark_line_def del: modify_first.simps)
  with l(2) show ?thesis
    by (simp add: first_text_run_def select_def prefix_text_def)
qed

lemma diff_line_has_classes:
  "matches sel_diff_line line \<Longrightarrow> \<exists>lt lc lp lcs. line = Element lt (Some lc) lp lcs"
  by (cases line) (auto simp: matches_def is_element_def sel_diff_line_def split: option.splits)

lemmas ec_eval = improveExpressiveCodeHandling_def ec_node.simps ec_instance_def
  caption_step_def code_step_def annotate_code_def mark_line_def prefix_text_def
  diff_marker_def strip_label_def dataLanguage_def select_def matches_def is_element_def
  sel_expressive_code_def sel_figcaption_def sel_span_sr_only_def sel_pre_def sel_code_def
  sel_diff_line_def sel_span_not_indent_def first_text_run_def Let_def

subsection \<open>What the normalizer leaves alone\<close>

text \<open>
  The normalizer changes lists of children, text values and the class list of \<^verbatim>\<open>code\<close>
  elements, to which it adds a token that starts with \<^verbatim>\<open>language-\<close>. A property of nodes
  that none of these changes can bring about (being a rich code sample widget, or being
  a \<^verbatim>\<open>starlight-tabs\<close> element with \<^verbatim>\<open>role="tabpanel"\<close>) is had by no node of the result
  when no node of the input has it. Hence a subtree without widgets is returned as it
  is, a widget that holds no other widget is handled by one pass of the loop, and a
  widget that lies in no other widget is found in the result at the place it had.
\<close>

lemma set_splice_first: "set (splice_first P xs) \<subseteq> set xs"
  by (induction xs) auto

lemma strip_label_free:
  assumes "\<forall>a b. same_head a b \<longrightarrow> Q a = Q b"
  shows "free_of Q x \<Longrightarrow> free_of Q (strip_label x)"
    and "free_below Q x \<Longrightarrow> free_below Q (strip_label x)"
proof -
  show "free_of Q x \<Longrightarrow> free_of Q (strip_label x)"
  proof (cases x)
    case (Element t c p cs)
    assume f: "free_of Q x"
    have "\<forall>k \<in> set (splice_first (matches sel_span_sr_only) cs). free_of Q k"
      using f Element set_splice_first[of "matches sel_span_sr_only" cs]
      by (auto simp: free_of_Element)
    with f Element show ?thesis
      using free_of_kids[where Q = Q and t = t and c = c and p = p and cs = cs, OF assms] by (simp add: strip_label_def)
  qed (simp_all add: strip_label_def)
  show "free_below Q x \<Longrightarrow> free_below Q (strip_label x)"
    using set_splice_first[of "matches sel_span_sr_only"]
    by (cases x) (auto simp: strip_label_def free_below_Element free_of_leaf)
qed

lemma prefix_text_free:
  assumes "\<forall>a b. same_head a b \<longrightarrow> Q a = Q b" and "\<forall>d. Q d \<longrightarrow> is_element d"
  shows "free_of Q x \<Longrightarrow> free_of Q (prefix_text m x)"
    and "free_below Q x \<Longrightarrow> free_below Q (prefix_text m x)"
proof -
  have tx: "\<not> Q (Text v)" for v
    using assms(2)[rule_format, of "Text v"] by (auto simp: is_element_def)
  have kids: "\<forall>k \<in> set (Text (m # v) # rest). free_of Q k"
    if "\<forall>k \<in> set (Text v # rest). free_of Q k" for v rest
    using that tx by (simp add: free_of_leaf)
  show "free_of Q x \<Longrightarrow> free_of Q (prefix_text m x)"
  proof (cases "\<exists>t c p v rest. x = Element t c p (Text v # rest)")
    case True
    then obtain t c p v rest where x: "x = Element t c p (Text v # rest)" by blast
    assume f: "free_of Q x"
    then have "\<forall>k \<in> set (Text v # rest). free_of Q k"
      unfolding x free_of_Element by blast
    then have "free_of Q (Element t c p (Text (m # v) # rest))"
      using free_of_kids[where Q = Q and t = t and c = c and p = p and cs = "Text v # rest", OF assms(1)] f kids unfolding x by blast
    then show ?thesis by (simp add: x prefix_text_def)
  next
    case False
    then have "prefix_text m x = x"
      by (auto simp: prefix_text_def split: node.splits list.splits)
    then show "free_of Q x \<Longrightarrow> ?thesis" by simp
  qed
  show "free_below Q x \<Longrightarrow> free_below Q (prefix_text m x)"
    using tx
    by (auto simp: prefix_text_def free_below_Element free_of_leaf
        split: node.splits list.splits)
qed

lemma mark_line_free:
  assumes "\<forall>a b. same_head a b \<longrightarrow> Q a = Q b" and "\<forall>d. Q d \<longrightarrow> is_element d"
  shows "free_of Q x \<Longrightarrow> free_of Q (mark_line x)"
    and "free_below Q x \<Longrightarrow> free_below Q (mark_line x)"
proof -
  have k1: "free_of Q x \<Longrightarrow> free_of Q x'"
    if "modify_first (matches sel_span_not_indent) (prefix_text m) x = Some x'" for m x'
    using modify_first_keeps_free(1)[where Q = Q and f = "prefix_text m", OF assms(1) _ _ that]
      prefix_text_free[where Q = Q, OF assms] by blast
  have k2: "free_below Q x \<Longrightarrow> free_below Q x'"
    if "modify_first (matches sel_span_not_indent) (prefix_text m) x = Some x'" for m x'
    using modify_first_keeps_free(2)[where Q = Q and f = "prefix_text m", OF assms(1) _ _ that]
      prefix_text_free[where Q = Q, OF assms] by blast
  show "free_of Q x \<Longrightarrow> free_of Q (mark_line x)"
    using k1 by (auto simp: mark_line_def simp del: modify_first.simps
        split: node.splits option.splits)
  show "free_below Q x \<Longrightarrow> free_below Q (mark_line x)"
    using k2 by (auto simp: mark_line_def simp del: modify_first.simps
        split: node.splits option.splits)
qed

lemma annotate_code_free:
  assumes "\<forall>a b. same_head a b \<longrightarrow> Q a = Q b" and "\<forall>d. Q d \<longrightarrow> is_element d"
    and "\<forall>t c l p cs. Q (Element t (Some ((case c of Some x \<Rightarrow> x | None \<Rightarrow> [])
            @ [''language-'' @ l])) p cs) \<longrightarrow> Q (Element t c p cs)"
  shows "free_of Q x \<Longrightarrow> free_of Q (annotate_code lang x)"
    and "free_below Q x \<Longrightarrow> free_below Q (annotate_code lang x)"
proof -
  have g: "free_of Q (mark_line k)" if "free_of Q k" for k
    using that mark_line_free(1)[where Q = Q, OF assms(1,2)] by simp
  show b: "free_below Q x \<Longrightarrow> free_below Q (annotate_code lang x)"
    using g by (cases x) (auto simp: annotate_code_def Let_def free_below_Element free_of_leaf)
  show "free_of Q x \<Longrightarrow> free_of Q (annotate_code lang x)"
  proof (cases x)
    case (Element t c p cs)
    assume f: "free_of Q x"
    then have "free_below Q x" by (simp add: Element free_of_Element free_below_Element)
    then have fb: "free_below Q (annotate_code lang x)" by (rule b)
    have "\<exists>l ks. annotate_code lang x
        = Element t (Some ((case c of Some x \<Rightarrow> x | None \<Rightarrow> []) @ [''language-'' @ l])) p ks"
    proof (cases "(if lang = ''diff'' then [] else filter (matches sel_diff_line) cs) = []")
      case True
      then have "annotate_code lang x
        = Element t (Some ((case c of Some x \<Rightarrow> x | None \<Rightarrow> []) @ [''language-'' @ lang])) p cs"
        by (simp add: Element annotate_code_def Let_def)
      then show ?thesis by blast
    next
      case False
      then have "annotate_code lang x
        = Element t (Some ((case c of Some x \<Rightarrow> x | None \<Rightarrow> []) @ [''language-'' @ ''diff''])) p
            (map (\<lambda>child. if matches sel_diff_line child then mark_line child else child) cs)"
        by (simp add: Element annotate_code_def Let_def)
      then show ?thesis by blast
    qed
    then obtain l ks where a: "annotate_code lang x
        = Element t (Some ((case c of Some x \<Rightarrow> x | None \<Rightarrow> []) @ [''language-'' @ l])) p ks"
      by blast
    have "\<not> Q (Element t c p ks)"
      using f assms(1)[rule_format, of "Element t c p ks" "Element t c p cs"]
      by (simp add: Element free_of_Element)
    then have "\<not> Q (annotate_code lang x)" unfolding a using assms(3) by blast
    with fb show ?thesis unfolding a by (simp add: free_of_Element free_below_Element)
  qed (simp_all add: annotate_code_def)
qed

lemma caption_step_free:
  assumes "\<forall>a b. same_head a b \<longrightarrow> Q a = Q b"
  shows "free_of Q x \<Longrightarrow> free_of Q (caption_step x)"
    and "free_below Q x \<Longrightarrow> free_below Q (caption_step x)"
proof -
  have k1: "free_of Q x \<Longrightarrow> free_of Q x'"
    if "modify_first (matches sel_figcaption) strip_label x = Some x'" for x'
    using modify_first_keeps_free(1)[where Q = Q and f = strip_label, OF assms(1) _ _ that]
      strip_label_free[where Q = Q, OF assms] by blast
  have k2: "free_below Q x \<Longrightarrow> free_below Q x'"
    if "modify_first (matches sel_figcaption) strip_label x = Some x'" for x'
    using modify_first_keeps_free(2)[where Q = Q and f = strip_label, OF assms(1) _ _ that]
      strip_label_free[where Q = Q, OF assms] by blast
  show "free_of Q x \<Longrightarrow> free_of Q (caption_step x)"
    using k1 by (auto simp: caption_step_def simp del: modify_first.simps split: option.splits)
  show "free_below Q x \<Longrightarrow> free_below Q (caption_step x)"
    using k2 by (auto simp: caption_step_def simp del: modify_first.simps split: option.splits)
qed

lemma code_step_free:
  assumes "\<forall>a b. same_head a b \<longrightarrow> Q a = Q b" and "\<forall>d. Q d \<longrightarrow> is_element d"
    and "\<forall>t c l p cs. Q (Element t (Some ((case c of Some x \<Rightarrow> x | None \<Rightarrow> [])
            @ [''language-'' @ l])) p cs) \<longrightarrow> Q (Element t c p cs)"
  shows "free_of Q x \<Longrightarrow> free_of Q (code_step x)"
    and "free_below Q x \<Longrightarrow> free_below Q (code_step x)"
proof -
  have k1: "free_of Q x \<Longrightarrow> free_of Q x'"
    if "modify_first (matches sel_code) (annotate_code lang) x = Some x'" for x' lang
    using modify_first_keeps_free(1)[where Q = Q and f = "annotate_code lang", OF assms(1) _ _ that]
      annotate_code_free[where Q = Q, OF assms] by blast
  have k2: "free_below Q x \<Longrightarrow> free_below Q x'"
    if "modify_first (matches sel_code) (annotate_code lang) x = Some x'" for x' lang
    using modify_first_keeps_free(2)[where Q = Q and f = "annotate_code lang", OF assms(1) _ _ that]
      annotate_code_free[where Q = Q, OF assms] by blast
  show "free_of Q x \<Longrightarrow> free_of Q (code_step x)"
    using k1 by (auto simp: code_step_def simp del: modify_first.simps split: option.splits)
  show "free_below Q x \<Longrightarrow> free_below Q (code_step x)"
    using k2 by (auto simp: code_step_def simp del: modify_first.simps split: option.splits)
qed

lemma ec_instance_free:
  assumes "\<forall>a b. same_head a b \<longrightarrow> Q a = Q b" and "\<forall>d. Q d \<longrightarrow> is_element d"
    and "\<forall>t c l p cs. Q (Element t (Some ((case c of Some x \<Rightarrow> x | None \<Rightarrow> [])
            @ [''language-'' @ l])) p cs) \<longrightarrow> Q (Element t c p cs)"
  shows "free_of Q x \<Longrightarrow> free_of Q (ec_instance x)"
    and "free_below Q x \<Longrightarrow> free_below Q (ec_instance x)"
  unfolding ec_instance_def
  using code_step_free[where Q = Q and x = "caption_step x", OF assms]
    caption_step_free[where Q = Q and x = x, OF assms(1)]
  by blast+

lemma matches_own_only_head:
  "own_only sel \<Longrightarrow> \<forall>a b. same_head a b \<longrightarrow> matches sel a = matches sel b"
  using own_only_same_head by blast

lemma widget_head:
  "\<forall>a b. same_head a b \<longrightarrow> matches sel_expressive_code a = matches sel_expressive_code b"
  by (rule matches_own_only_head) (simp add: own_only_def sel_expressive_code_def)

lemma widget_element: "\<forall>d. matches sel_expressive_code d \<longrightarrow> is_element d"
  by (simp add: matches_def)

lemma widget_push:
  "\<forall>t c l p cs.
     matches sel_expressive_code
       (Element t (Some ((case c of Some x \<Rightarrow> x | None \<Rightarrow> []) @ [''language-'' @ l])) p cs)
     \<longrightarrow> matches sel_expressive_code (Element t c p cs)"
  by (auto simp: matches_def sel_expressive_code_def is_element_def split: option.splits)






lemma ec_node_id: "free_of (matches sel_expressive_code) n \<Longrightarrow> ec_node n = n"
proof (induction n rule: ec_node.induct)
  case (1 n)
  have nm: "\<not> matches sel_expressive_code n"
    using "1.prems" by (cases n) (simp_all add: free_of_def)
  show ?case
  proof (cases n)
    case (Element t c p cs)
    have "map ec_node cs = cs"
      using "1.IH"[of t c p cs] nm Element "1.prems"
      by (simp add: free_of_Element map_idI)
    then show ?thesis using nm Element by (subst ec_node.simps) simp
  qed (use nm in \<open>subst ec_node.simps, simp\<close>)+
qed

lemma ec_node_lone:
  assumes "selectAll sel_expressive_code inst = [inst]"
  shows "ec_node inst = ec_instance inst"
proof -
  have m: "matches sel_expressive_code inst"
    and fb: "free_below (matches sel_expressive_code) inst"
    using selectAll_only_self[OF assms] by (simp_all add: free_below_def)
  have fb': "free_below (matches sel_expressive_code) (ec_instance inst)"
    using ec_instance_free(2)[where Q = "matches sel_expressive_code" and x = inst,
        OF widget_head widget_element widget_push] fb by blast
  show ?thesis
  proof (cases "ec_instance inst")
    case (Element t c p cs)
    have "map ec_node cs = cs"
      using fb' unfolding Element free_below_Element by (simp add: ec_node_id map_idI)
    then show ?thesis using m Element by (subst ec_node.simps) simp
  qed (use m in \<open>subst ec_node.simps, simp\<close>)+
qed

lemma ec_node_outside:
  "\<not> matches sel_expressive_code (Element t c p ks)
    \<Longrightarrow> ec_node (Element t c p ks) = Element t c p (map ec_node ks)"
  by (subst ec_node.simps) simp

lemma node_at_ec:
  "node_at cs path = Some n \<Longrightarrow> outside sel_expressive_code cs path
    \<Longrightarrow> node_at (map ec_node cs) path = Some (ec_node n)"
proof (induction cs path rule: node_at.induct)
  case (3 cs i j path)
  from "3.prems" obtain t c p ks where e: "cs ! i = Element t c p ks" and i: "i < length cs"
    by (auto split: node.splits if_splits)
  have nm: "\<not> matches sel_expressive_code (Element t c p ks)"
    using "3.prems"(2) e by simp
  have "node_at (map ec_node ks) (j # path) = Some (ec_node n)"
    using "3.IH"[OF i e] "3.prems" e i by simp
  then show ?case using i e ec_node_outside[OF nm] by simp
qed (auto split: if_splits)

lemma lone_widget_handled:
  assumes "lone_widget_at tree path inst"
  shows "node_at (rootChildren (improveExpressiveCodeHandling tree)) path
           = Some (ec_instance inst)"
  using assms node_at_ec[of "rootChildren tree" path inst] ec_node_lone[of inst]
  by (simp add: lone_widget_at_def improveExpressiveCodeHandling_def)

subsection \<open>A declared language of diff\<close>

text \<open>
  Claim C1, as amended. Take a rich code sample widget anywhere in the tree that neither
  lies inside another such widget nor holds one, and let \<^verbatim>\<open>pre\<close> and \<^verbatim>\<open>code\<close> be the
  elements that the normalizer finds in it once the label is out of its caption. When
  \<^verbatim>\<open>pre\<close> declares \<^verbatim>\<open>data-language="diff"\<close>, the tree that leaves the normalizer holds
  the widget at the same place, and the widget's \<^verbatim>\<open>code\<close> element now carries
  \<^verbatim>\<open>language-diff\<close> after the class tokens it had, with its content as it was: the lines
  flagged \<^verbatim>\<open>ins\<close> or \<^verbatim>\<open>del\<close> get no prefix.
\<close>

theorem diff_language_class_without_prefix:
  assumes "lone_widget_at tree path inst"
    and "select sel_pre (caption_step inst) = Some pre"
    and "dataLanguage pre = Some ''diff''"
    and "select sel_code (caption_step inst) = Some (Element t c p cs)"
  shows "\<exists>inst'. node_at (rootChildren (improveExpressiveCodeHandling tree)) path = Some inst'
         \<and> select sel_code inst'
           = Some (Element t
               (Some ((case c of Some l \<Rightarrow> l | None \<Rightarrow> []) @ [''language-diff''])) p cs)"
proof -
  have "select sel_code (ec_instance inst)
      = Some (Element t (Some ((case c of Some l \<Rightarrow> l | None \<Rightarrow> []) @ [''language-diff''])) p cs)"
    using code_step_select[OF assms(2,3) _ assms(4)]
    by (simp add: ec_instance_def annotate_code_def)
  with lone_widget_handled[OF assms(1)] show ?thesis by blast
qed

text \<open>
  The scenario of the specification, below a wrapper element: two lines, \<^verbatim>\<open>foo\<close> flagged
  \<^verbatim>\<open>ins\<close> and \<^verbatim>\<open>bar\<close> flagged \<^verbatim>\<open>del\<close>, in a sample that declares \<^verbatim>\<open>diff\<close>.
\<close>

theorem diff_language_class_without_prefix_witness:
  "lone_widget_at
     (Root [Element ''main'' None []
               [Element ''h1'' None [] [Text (js ''Title'')],
                Element ''div'' (Some [''expressive-code'']) []
                   [Element ''pre'' None [(''dataLanguage'', ''diff'')]
                       [Element ''code'' None []
                           [Element ''div'' (Some [''ec-line'', ''ins'']) []
                               [Element ''span'' None [] [Text (js ''foo'')]],
                            Element ''div'' (Some [''ec-line'', ''del'']) []
                               [Element ''span'' None [] [Text (js ''bar'')]]]]]]])
     [0, 1]
     (Element ''div'' (Some [''expressive-code'']) []
         [Element ''pre'' None [(''dataLanguage'', ''diff'')]
             [Element ''code'' None []
                 [Element ''div'' (Some [''ec-line'', ''ins'']) []
                     [Element ''span'' None [] [Text (js ''foo'')]],
                  Element ''div'' (Some [''ec-line'', ''del'']) []
                     [Element ''span'' None [] [Text (js ''bar'')]]]]])
   \<and> select sel_pre (caption_step
     (Element ''div'' (Some [''expressive-code'']) []
         [Element ''pre'' None [(''dataLanguage'', ''diff'')]
             [Element ''code'' None []
                 [Element ''div'' (Some [''ec-line'', ''ins'']) []
                     [Element ''span'' None [] [Text (js ''foo'')]],
                  Element ''div'' (Some [''ec-line'', ''del'']) []
                     [Element ''span'' None [] [Text (js ''bar'')]]]]]))
   = Some (Element ''pre'' None [(''dataLanguage'', ''diff'')]
            [Element ''code'' None []
                [Element ''div'' (Some [''ec-line'', ''ins'']) []
                    [Element ''span'' None [] [Text (js ''foo'')]],
                 Element ''div'' (Some [''ec-line'', ''del'']) []
                    [Element ''span'' None [] [Text (js ''bar'')]]]])
   \<and> dataLanguage
     (Element ''pre'' None [(''dataLanguage'', ''diff'')]
         [Element ''code'' None []
             [Element ''div'' (Some [''ec-line'', ''ins'']) []
                 [Element ''span'' None [] [Text (js ''foo'')]],
              Element ''div'' (Some [''ec-line'', ''del'']) []
                 [Element ''span'' None [] [Text (js ''bar'')]]]]) = Some ''diff''
   \<and> select sel_code (caption_step
     (Element ''div'' (Some [''expressive-code'']) []
         [Element ''pre'' None [(''dataLanguage'', ''diff'')]
             [Element ''code'' None []
                 [Element ''div'' (Some [''ec-line'', ''ins'']) []
                     [Element ''span'' None [] [Text (js ''foo'')]],
                  Element ''div'' (Some [''ec-line'', ''del'']) []
                     [Element ''span'' None [] [Text (js ''bar'')]]]]]))
   = Some (Element ''code'' None []
            [Element ''div'' (Some [''ec-line'', ''ins'']) []
                [Element ''span'' None [] [Text (js ''foo'')]],
             Element ''div'' (Some [''ec-line'', ''del'']) []
                [Element ''span'' None [] [Text (js ''bar'')]]])
   \<and> node_at (rootChildren (improveExpressiveCodeHandling
     (Root [Element ''main'' None []
               [Element ''h1'' None [] [Text (js ''Title'')],
                Element ''div'' (Some [''expressive-code'']) []
                   [Element ''pre'' None [(''dataLanguage'', ''diff'')]
                       [Element ''code'' None []
                           [Element ''div'' (Some [''ec-line'', ''ins'']) []
                               [Element ''span'' None [] [Text (js ''foo'')]],
                            Element ''div'' (Some [''ec-line'', ''del'']) []
                               [Element ''span'' None [] [Text (js ''bar'')]]]]]]])))
     [0, 1]
   = Some (Element ''div'' (Some [''expressive-code'']) []
            [Element ''pre'' None [(''dataLanguage'', ''diff'')]
                [Element ''code'' (Some [''language-diff'']) []
                    [Element ''div'' (Some [''ec-line'', ''ins'']) []
                        [Element ''span'' None [] [Text (js ''foo'')]],
                     Element ''div'' (Some [''ec-line'', ''del'']) []
                        [Element ''span'' None [] [Text (js ''bar'')]]]]])
   \<and> select sel_code
     (Element ''div'' (Some [''expressive-code'']) []
         [Element ''pre'' None [(''dataLanguage'', ''diff'')]
             [Element ''code'' (Some [''language-diff'']) []
                 [Element ''div'' (Some [''ec-line'', ''ins'']) []
                     [Element ''span'' None [] [Text (js ''foo'')]],
                  Element ''div'' (Some [''ec-line'', ''del'']) []
                     [Element ''span'' None [] [Text (js ''bar'')]]]]])
   = Some (Element ''code'' (Some [''language-diff'']) []
            [Element ''div'' (Some [''ec-line'', ''ins'']) []
                [Element ''span'' None [] [Text (js ''foo'')]],
             Element ''div'' (Some [''ec-line'', ''del'']) []
                [Element ''span'' None [] [Text (js ''bar'')]]])"
proof -
  let ?lines = "[Element ''div'' (Some [''ec-line'', ''ins'']) []
                    [Element ''span'' None [] [Text (js ''foo'')]],
                 Element ''div'' (Some [''ec-line'', ''del'']) []
                    [Element ''span'' None [] [Text (js ''bar'')]]]"
  let ?code = "Element ''code'' None [] ?lines"
  let ?pre = "Element ''pre'' None [(''dataLanguage'', ''diff'')] [?code]"
  let ?inst = "Element ''div'' (Some [''expressive-code'']) [] [?pre]"
  let ?tree = "Root [Element ''main'' None [] [Element ''h1'' None [] [Text (js ''Title'')], ?inst]]"
  let ?inst' = "Element ''div'' (Some [''expressive-code'']) []
        [Element ''pre'' None [(''dataLanguage'', ''diff'')]
           [Element ''code'' (Some [''language-diff'']) [] ?lines]]"
  have h0: "lone_widget_at ?tree [0, 1] ?inst"
    by (simp add: lone_widget_at_def selectAll_def matches_def is_element_def
        sel_expressive_code_def)
  have c: "caption_step ?inst = ?inst"
    by (simp add: caption_step_def matches_def is_element_def sel_figcaption_def)
  have h1: "select sel_pre (caption_step ?inst) = Some ?pre"
    unfolding c by (simp add: select_def matches_def is_element_def sel_pre_def)
  have h2: "dataLanguage ?pre = Some ''diff''"
    by (simp add: dataLanguage_def)
  have h3: "select sel_code (caption_step ?inst) = Some ?code"
    unfolding c by (simp add: select_def matches_def is_element_def sel_code_def)
  from diff_language_class_without_prefix[OF h0 h1 h2 h3] obtain inst' where
    r: "node_at (rootChildren (improveExpressiveCodeHandling ?tree)) [0, 1] = Some inst'"
       "select sel_code inst' = Some (Element ''code'' (Some [''language-diff'']) [] ?lines)"
    by auto
  have e: "node_at (rootChildren (improveExpressiveCodeHandling ?tree)) [0, 1] = Some ?inst'"
    by (simp add: ec_eval)
  with r have "select sel_code ?inst' = Some (Element ''code'' (Some [''language-diff'']) [] ?lines)"
    by simp
  with h0 h1 h2 h3 e show ?thesis by simp
qed

text \<open>
  Claim C1 as stated fails on that scenario: the \<^verbatim>\<open>code\<close> element gets the class, and
  its lines still read \<^verbatim>\<open>foo\<close> and \<^verbatim>\<open>bar\<close>, not \<^verbatim>\<open>+foo\<close> and \<^verbatim>\<open>-bar\<close>.
\<close>

theorem diff_language_lines_unmarked_counterexample:
  "improveExpressiveCodeHandling
     (Root [Element ''div'' (Some [''expressive-code'']) []
               [Element ''pre'' None [(''dataLanguage'', ''diff'')]
                   [Element ''code'' None []
                       [Element ''div'' (Some [''ec-line'', ''ins'']) []
                           [Element ''span'' None [] [Text (js ''foo'')]],
                        Element ''div'' (Some [''ec-line'', ''del'']) []
                           [Element ''span'' None [] [Text (js ''bar'')]]]]]])
   = Root [Element ''div'' (Some [''expressive-code'']) []
            [Element ''pre'' None [(''dataLanguage'', ''diff'')]
                [Element ''code'' (Some [''language-diff'']) []
                    [Element ''div'' (Some [''ec-line'', ''ins'']) []
                        [Element ''span'' None [] [Text (js ''foo'')]],
                     Element ''div'' (Some [''ec-line'', ''del'']) []
                        [Element ''span'' None [] [Text (js ''bar'')]]]]]]
   \<and> js ''foo'' \<noteq> js ''+foo'' \<and> js ''bar'' \<noteq> js ''-bar''"
  by (simp add: ec_eval js_def)

text \<open>
  Widgets that share a \<^verbatim>\<open>code\<close> element are left out of the amended claim: here the
  outer widget's first \<^verbatim>\<open>pre\<close> declares \<^verbatim>\<open>diff\<close> and its first \<^verbatim>\<open>code\<close> element is the
  one of the widget within, whose own \<^verbatim>\<open>pre\<close> declares \<^verbatim>\<open>js\<close>. The element is handled
  once for each widget: it ends with the class twice and with its lines prefixed.
\<close>

lemma nested_widgets_share_code_example:
  "improveExpressiveCodeHandling
     (Root [Element ''div'' (Some [''expressive-code'']) []
               [Element ''pre'' None [(''dataLanguage'', ''diff'')] [],
                Element ''div'' (Some [''expressive-code'']) []
                   [Element ''pre'' None [(''dataLanguage'', ''js'')]
                       [Element ''code'' None []
                           [Element ''div'' (Some [''ec-line'', ''ins'']) []
                               [Element ''span'' None [] [Text (js ''foo'')]],
                            Element ''div'' (Some [''ec-line'', ''del'']) []
                               [Element ''span'' None [] [Text (js ''bar'')]]]]]]])
   = Root [Element ''div'' (Some [''expressive-code'']) []
            [Element ''pre'' None [(''dataLanguage'', ''diff'')] [],
             Element ''div'' (Some [''expressive-code'']) []
                [Element ''pre'' None [(''dataLanguage'', ''js'')]
                    [Element ''code'' (Some [''language-diff'', ''language-diff'']) []
                        [Element ''div'' (Some [''ec-line'', ''ins'']) []
                            [Element ''span'' None [] [Text (js ''+foo'')]],
                         Element ''div'' (Some [''ec-line'', ''del'']) []
                            [Element ''span'' None [] [Text (js ''-bar'')]]]]]]]"
  by (simp add: ec_eval js_def)

subsection \<open>Lines flagged as inserted or deleted\<close>

text \<open>
  Claim C4, as amended. Take a rich code sample widget anywhere in the tree that neither
  lies inside another such widget nor holds one, and let \<^verbatim>\<open>pre\<close> and \<^verbatim>\<open>code\<close> be the
  elements that the normalizer finds in it once the label is out of its caption. When
  \<^verbatim>\<open>pre\<close> declares a language that is not empty and not \<^verbatim>\<open>diff\<close>, and \<^verbatim>\<open>code\<close> has at
  least one child matching \<^verbatim>\<open>div.ec-line.ins\<close> or \<^verbatim>\<open>div.ec-line.del\<close>, the tree that
  leaves the normalizer holds the widget at the same place, and the widget's \<^verbatim>\<open>code\<close>
  element now carries \<^verbatim>\<open>language-diff\<close>; its other children are unchanged, and the first
  text run of each flagged line now begins with \<^verbatim>\<open>+\<close> when the line is flagged \<^verbatim>\<open>ins\<close>
  and with \<^verbatim>\<open>-\<close> otherwise (flagged \<^verbatim>\<open>del\<close> only).
\<close>

theorem diff_lines_marked:
  assumes "lone_widget_at tree path inst"
    and "select sel_pre (caption_step inst) = Some pre"
    and "dataLanguage pre = Some lang" and "lang \<noteq> []" and "lang \<noteq> ''diff''"
    and "select sel_code (caption_step inst) = Some (Element t c p cs)"
    and "filter (matches sel_diff_line) cs \<noteq> []"
  shows "\<exists>inst' cs'.
           node_at (rootChildren (improveExpressiveCodeHandling tree)) path = Some inst'
         \<and> select sel_code inst'
           = Some (Element t
               (Some ((case c of Some l \<Rightarrow> l | None \<Rightarrow> []) @ [''language-diff''])) p cs')
         \<and> length cs' = length cs
         \<and> (\<forall>i < length cs.
              (\<not> matches sel_diff_line (cs ! i) \<longrightarrow> cs' ! i = cs ! i)
            \<and> (matches sel_diff_line (cs ! i) \<longrightarrow>
                 (\<forall>v. first_text_run (cs ! i) = Some v \<longrightarrow>
                    first_text_run (cs' ! i)
                    = Some ((if matches [[HasClass ''ins'']] (cs ! i) then 0x2B else 0x2D) # v))))"
proof -
  let ?g = "\<lambda>child. if matches sel_diff_line child then mark_line child else child"
  from code_step_select[OF assms(2,3,4,6)] assms(5,7)
  have r: "select sel_code (ec_instance inst)
           = Some (Element t
               (Some ((case c of Some l \<Rightarrow> l | None \<Rightarrow> []) @ [''language-diff''])) p (map ?g cs))"
    by (simp add: ec_instance_def annotate_code_def Let_def)
  have "first_text_run (map ?g cs ! i)
          = Some ((if matches [[HasClass ''ins'']] (cs ! i) then 0x2B else 0x2D) # v)"
    if i: "i < length cs" and m: "matches sel_diff_line (cs ! i)"
      and v: "first_text_run (cs ! i) = Some v" for i v
  proof -
    from diff_line_has_classes[OF m] obtain lt lc lp lcs where
      l: "cs ! i = Element lt (Some lc) lp lcs" by blast
    have "diff_marker lc = (if matches [[HasClass ''ins'']] (cs ! i) then 0x2B else 0x2D)"
      unfolding l by (simp add: diff_marker_def matches_def is_element_def)
    with mark_line_first_text[of lt lc lp lcs v] v l i m show ?thesis by simp
  qed
  then show ?thesis using r lone_widget_handled[OF assms(1)]
    by (intro exI[of _ "ec_instance inst"] exI[of _ "map ?g cs"]) simp
qed

text \<open>
  A sample in \<^verbatim>\<open>js\<close> below a wrapper element, with an inserted line that starts with an
  indent span, a deleted line and a plain line.
\<close>

theorem diff_lines_marked_witness:
  "lone_widget_at
     (Root [Element ''main'' None []
               [Element ''h1'' None [] [Text (js ''Title'')],
                Element ''div'' (Some [''expressive-code'']) []
                   [Element ''pre'' None [(''dataLanguage'', ''js'')]
                       [Element ''code'' None []
                           [Element ''div'' (Some [''ec-line'', ''ins'']) []
                               [Element ''div'' (Some [''code'']) []
                                   [Element ''span'' (Some [''indent'']) []
                                       [Text (js ''  '')],
                                    Element ''span'' None [] [Text (js ''foo'')]]],
                            Element ''div'' (Some [''ec-line'', ''del'']) []
                               [Element ''div'' (Some [''code'']) []
                                   [Element ''span'' None [] [Text (js ''bar'')]]],
                            Element ''div'' (Some [''ec-line'']) []
                               [Element ''div'' (Some [''code'']) []
                                   [Element ''span'' None [] [Text (js ''baz'')]]]]]]]])
     [0, 1]
     (Element ''div'' (Some [''expressive-code'']) []
         [Element ''pre'' None [(''dataLanguage'', ''js'')]
             [Element ''code'' None []
                 [Element ''div'' (Some [''ec-line'', ''ins'']) []
                     [Element ''div'' (Some [''code'']) []
                         [Element ''span'' (Some [''indent'']) [] [Text (js ''  '')],
                          Element ''span'' None [] [Text (js ''foo'')]]],
                  Element ''div'' (Some [''ec-line'', ''del'']) []
                     [Element ''div'' (Some [''code'']) []
                         [Element ''span'' None [] [Text (js ''bar'')]]],
                  Element ''div'' (Some [''ec-line'']) []
                     [Element ''div'' (Some [''code'']) []
                         [Element ''span'' None [] [Text (js ''baz'')]]]]]])
   \<and> select sel_pre (caption_step
     (Element ''div'' (Some [''expressive-code'']) []
         [Element ''pre'' None [(''dataLanguage'', ''js'')]
             [Element ''code'' None []
                 [Element ''div'' (Some [''ec-line'', ''ins'']) []
                     [Element ''div'' (Some [''code'']) []
                         [Element ''span'' (Some [''indent'']) [] [Text (js ''  '')],
                          Element ''span'' None [] [Text (js ''foo'')]]],
                  Element ''div'' (Some [''ec-line'', ''del'']) []
                     [Element ''div'' (Some [''code'']) []
                         [Element ''span'' None [] [Text (js ''bar'')]]],
                  Element ''div'' (Some [''ec-line'']) []
                     [Element ''div'' (Some [''code'']) []
                         [Element ''span'' None [] [Text (js ''baz'')]]]]]]))
   = Some (Element ''pre'' None [(''dataLanguage'', ''js'')]
            [Element ''code'' None []
                [Element ''div'' (Some [''ec-line'', ''ins'']) []
                    [Element ''div'' (Some [''code'']) []
                        [Element ''span'' (Some [''indent'']) [] [Text (js ''  '')],
                         Element ''span'' None [] [Text (js ''foo'')]]],
                 Element ''div'' (Some [''ec-line'', ''del'']) []
                    [Element ''div'' (Some [''code'']) []
                        [Element ''span'' None [] [Text (js ''bar'')]]],
                 Element ''div'' (Some [''ec-line'']) []
                    [Element ''div'' (Some [''code'']) []
                        [Element ''span'' None [] [Text (js ''baz'')]]]]])
   \<and> dataLanguage
     (Element ''pre'' None [(''dataLanguage'', ''js'')]
         [Element ''code'' None []
             [Element ''div'' (Some [''ec-line'', ''ins'']) []
                 [Element ''div'' (Some [''code'']) []
                     [Element ''span'' (Some [''indent'']) [] [Text (js ''  '')],
                      Element ''span'' None [] [Text (js ''foo'')]]],
              Element ''div'' (Some [''ec-line'', ''del'']) []
                 [Element ''div'' (Some [''code'']) []
                     [Element ''span'' None [] [Text (js ''bar'')]]],
              Element ''div'' (Some [''ec-line'']) []
                 [Element ''div'' (Some [''code'']) []
                     [Element ''span'' None [] [Text (js ''baz'')]]]]]) = Some ''js''
   \<and> select sel_code (caption_step
     (Element ''div'' (Some [''expressive-code'']) []
         [Element ''pre'' None [(''dataLanguage'', ''js'')]
             [Element ''code'' None []
                 [Element ''div'' (Some [''ec-line'', ''ins'']) []
                     [Element ''div'' (Some [''code'']) []
                         [Element ''span'' (Some [''indent'']) [] [Text (js ''  '')],
                          Element ''span'' None [] [Text (js ''foo'')]]],
                  Element ''div'' (Some [''ec-line'', ''del'']) []
                     [Element ''div'' (Some [''code'']) []
                         [Element ''span'' None [] [Text (js ''bar'')]]],
                  Element ''div'' (Some [''ec-line'']) []
                     [Element ''div'' (Some [''code'']) []
                         [Element ''span'' None [] [Text (js ''baz'')]]]]]]))
   = Some (Element ''code'' None []
            [Element ''div'' (Some [''ec-line'', ''ins'']) []
                [Element ''div'' (Some [''code'']) []
                    [Element ''span'' (Some [''indent'']) [] [Text (js ''  '')],
                     Element ''span'' None [] [Text (js ''foo'')]]],
             Element ''div'' (Some [''ec-line'', ''del'']) []
                [Element ''div'' (Some [''code'']) []
                    [Element ''span'' None [] [Text (js ''bar'')]]],
             Element ''div'' (Some [''ec-line'']) []
                [Element ''div'' (Some [''code'']) []
                    [Element ''span'' None [] [Text (js ''baz'')]]]])
   \<and> filter (matches sel_diff_line)
     [Element ''div'' (Some [''ec-line'', ''ins'']) []
         [Element ''div'' (Some [''code'']) []
             [Element ''span'' (Some [''indent'']) [] [Text (js ''  '')],
              Element ''span'' None [] [Text (js ''foo'')]]],
      Element ''div'' (Some [''ec-line'', ''del'']) []
         [Element ''div'' (Some [''code'']) []
             [Element ''span'' None [] [Text (js ''bar'')]]],
      Element ''div'' (Some [''ec-line'']) []
         [Element ''div'' (Some [''code'']) []
             [Element ''span'' None [] [Text (js ''baz'')]]]] \<noteq> []
   \<and> node_at (rootChildren (improveExpressiveCodeHandling
     (Root [Element ''main'' None []
               [Element ''h1'' None [] [Text (js ''Title'')],
                Element ''div'' (Some [''expressive-code'']) []
                   [Element ''pre'' None [(''dataLanguage'', ''js'')]
                       [Element ''code'' None []
                           [Element ''div'' (Some [''ec-line'', ''ins'']) []
                               [Element ''div'' (Some [''code'']) []
                                   [Element ''span'' (Some [''indent'']) []
                                       [Text (js ''  '')],
                                    Element ''span'' None [] [Text (js ''foo'')]]],
                            Element ''div'' (Some [''ec-line'', ''del'']) []
                               [Element ''div'' (Some [''code'']) []
                                   [Element ''span'' None [] [Text (js ''bar'')]]],
                            Element ''div'' (Some [''ec-line'']) []
                               [Element ''div'' (Some [''code'']) []
                                   [Element ''span'' None [] [Text (js ''baz'')]]]]]]]])))
     [0, 1]
   = Some (Element ''div'' (Some [''expressive-code'']) []
            [Element ''pre'' None [(''dataLanguage'', ''js'')]
                [Element ''code'' (Some [''language-diff'']) []
                    [Element ''div'' (Some [''ec-line'', ''ins'']) []
                        [Element ''div'' (Some [''code'']) []
                            [Element ''span'' (Some [''indent'']) [] [Text (js ''  '')],
                             Element ''span'' None [] [Text (js ''+foo'')]]],
                     Element ''div'' (Some [''ec-line'', ''del'']) []
                        [Element ''div'' (Some [''code'']) []
                            [Element ''span'' None [] [Text (js ''-bar'')]]],
                     Element ''div'' (Some [''ec-line'']) []
                        [Element ''div'' (Some [''code'']) []
                            [Element ''span'' None [] [Text (js ''baz'')]]]]]])
   \<and> select sel_code
     (Element ''div'' (Some [''expressive-code'']) []
         [Element ''pre'' None [(''dataLanguage'', ''js'')]
             [Element ''code'' (Some [''language-diff'']) []
                 [Element ''div'' (Some [''ec-line'', ''ins'']) []
                     [Element ''div'' (Some [''code'']) []
                         [Element ''span'' (Some [''indent'']) [] [Text (js ''  '')],
                          Element ''span'' None [] [Text (js ''+foo'')]]],
                  Element ''div'' (Some [''ec-line'', ''del'']) []
                     [Element ''div'' (Some [''code'']) []
                         [Element ''span'' None [] [Text (js ''-bar'')]]],
                  Element ''div'' (Some [''ec-line'']) []
                     [Element ''div'' (Some [''code'']) []
                         [Element ''span'' None [] [Text (js ''baz'')]]]]]])
   = Some (Element ''code'' (Some [''language-diff'']) []
            [Element ''div'' (Some [''ec-line'', ''ins'']) []
                [Element ''div'' (Some [''code'']) []
                    [Element ''span'' (Some [''indent'']) [] [Text (js ''  '')],
                     Element ''span'' None [] [Text (js ''+foo'')]]],
             Element ''div'' (Some [''ec-line'', ''del'']) []
                [Element ''div'' (Some [''code'']) []
                    [Element ''span'' None [] [Text (js ''-bar'')]]],
             Element ''div'' (Some [''ec-line'']) []
                [Element ''div'' (Some [''code'']) []
                    [Element ''span'' None [] [Text (js ''baz'')]]]])"
proof -
  let ?lines = "[Element ''div'' (Some [''ec-line'', ''ins'']) []
                    [Element ''div'' (Some [''code'']) []
                        [Element ''span'' (Some [''indent'']) [] [Text (js ''  '')],
                         Element ''span'' None [] [Text (js ''foo'')]]],
                 Element ''div'' (Some [''ec-line'', ''del'']) []
                    [Element ''div'' (Some [''code'']) []
                        [Element ''span'' None [] [Text (js ''bar'')]]],
                 Element ''div'' (Some [''ec-line'']) []
                    [Element ''div'' (Some [''code'']) []
                        [Element ''span'' None [] [Text (js ''baz'')]]]]"
  let ?lines' = "[Element ''div'' (Some [''ec-line'', ''ins'']) []
                     [Element ''div'' (Some [''code'']) []
                         [Element ''span'' (Some [''indent'']) [] [Text (js ''  '')],
                          Element ''span'' None [] [Text (js ''+foo'')]]],
                  Element ''div'' (Some [''ec-line'', ''del'']) []
                     [Element ''div'' (Some [''code'']) []
                         [Element ''span'' None [] [Text (js ''-bar'')]]],
                  Element ''div'' (Some [''ec-line'']) []
                     [Element ''div'' (Some [''code'']) []
                         [Element ''span'' None [] [Text (js ''baz'')]]]]"
  let ?code = "Element ''code'' None [] ?lines"
  let ?pre = "Element ''pre'' None [(''dataLanguage'', ''js'')] [?code]"
  let ?inst = "Element ''div'' (Some [''expressive-code'']) [] [?pre]"
  let ?tree = "Root [Element ''main'' None [] [Element ''h1'' None [] [Text (js ''Title'')], ?inst]]"
  let ?inst' = "Element ''div'' (Some [''expressive-code'']) []
        [Element ''pre'' None [(''dataLanguage'', ''js'')]
           [Element ''code'' (Some [''language-diff'']) [] ?lines']]"
  have h0: "lone_widget_at ?tree [0, 1] ?inst"
    by (simp add: lone_widget_at_def selectAll_def matches_def is_element_def
        sel_expressive_code_def)
  have c: "caption_step ?inst = ?inst"
    by (simp add: caption_step_def matches_def is_element_def sel_figcaption_def)
  have h1: "select sel_pre (caption_step ?inst) = Some ?pre"
    unfolding c by (simp add: select_def matches_def is_element_def sel_pre_def)
  have h2: "dataLanguage ?pre = Some ''js''" "''js'' \<noteq> []" "''js'' \<noteq> ''diff''"
    by (simp_all add: dataLanguage_def)
  have h3: "select sel_code (caption_step ?inst) = Some ?code"
    unfolding c by (simp add: select_def matches_def is_element_def sel_code_def)
  have h4: "filter (matches sel_diff_line) ?lines \<noteq> []"
    by (simp add: matches_def is_element_def sel_diff_line_def)
  from diff_lines_marked[OF h0 h1 h2 h3 h4] obtain inst' cs' where
    r: "node_at (rootChildren (improveExpressiveCodeHandling ?tree)) [0, 1] = Some inst'"
       "select sel_code inst' = Some (Element ''code'' (Some [''language-diff'']) [] cs')"
    by auto
  have e: "node_at (rootChildren (improveExpressiveCodeHandling ?tree)) [0, 1] = Some ?inst'"
    by (simp add: ec_eval js_def)
  have s: "select sel_code ?inst' = Some (Element ''code'' (Some [''language-diff'']) [] ?lines')"
    by (simp add: select_def matches_def is_element_def sel_code_def)
  from r e s have "cs' = ?lines'" by simp
  with r e have "select sel_code ?inst'
      = Some (Element ''code'' (Some [''language-diff'']) [] ?lines')" by simp
  with h0 h1 h2(1) h3 h4 e show ?thesis by simp
qed

text \<open>
  Claim C4 as stated fails: with no declared language nothing is changed; with the
  declared language \<^verbatim>\<open>diff\<close> the class is attached and no line is prefixed; a line
  flagged both \<^verbatim>\<open>del\<close> and \<^verbatim>\<open>ins\<close> gets \<^verbatim>\<open>+\<close>; and where the flagged line holds
  another widget, the span that was prefixed (\<^verbatim>\<open>+foo\<close>) is taken out as the caption
  label of that widget, so that the line's first text run is \<^verbatim>\<open>bar\<close>.
\<close>

theorem diff_lines_unmarked_counterexample:
  "improveExpressiveCodeHandling
     (Root [Element ''div'' (Some [''expressive-code'']) []
               [Element ''pre'' None []
                   [Element ''code'' None []
                       [Element ''div'' (Some [''ec-line'', ''ins'']) []
                           [Element ''span'' None [] [Text (js ''foo'')]],
                        Element ''div'' (Some [''ec-line'', ''del'']) []
                           [Element ''span'' None [] [Text (js ''bar'')]]]]]])
   = Root [Element ''div'' (Some [''expressive-code'']) []
            [Element ''pre'' None []
                [Element ''code'' None []
                    [Element ''div'' (Some [''ec-line'', ''ins'']) []
                        [Element ''span'' None [] [Text (js ''foo'')]],
                     Element ''div'' (Some [''ec-line'', ''del'']) []
                        [Element ''span'' None [] [Text (js ''bar'')]]]]]]
   \<and> improveExpressiveCodeHandling
     (Root [Element ''div'' (Some [''expressive-code'']) []
               [Element ''pre'' None [(''dataLanguage'', ''diff'')]
                   [Element ''code'' None []
                       [Element ''div'' (Some [''ec-line'', ''ins'']) []
                           [Element ''span'' None [] [Text (js ''new'')]],
                        Element ''div'' (Some [''ec-line'', ''del'']) []
                           [Element ''span'' None [] [Text (js ''old'')]]]]]])
   = Root [Element ''div'' (Some [''expressive-code'']) []
            [Element ''pre'' None [(''dataLanguage'', ''diff'')]
                [Element ''code'' (Some [''language-diff'']) []
                    [Element ''div'' (Some [''ec-line'', ''ins'']) []
                        [Element ''span'' None [] [Text (js ''new'')]],
                     Element ''div'' (Some [''ec-line'', ''del'']) []
                        [Element ''span'' None [] [Text (js ''old'')]]]]]]
   \<and> improveExpressiveCodeHandling
     (Root [Element ''div'' (Some [''expressive-code'']) []
               [Element ''pre'' None [(''dataLanguage'', ''js'')]
                   [Element ''code'' None []
                       [Element ''div'' (Some [''ec-line'', ''ins'']) []
                           [Element ''span'' None [] [Text (js ''foo'')]],
                        Element ''div'' (Some [''ec-line'', ''del'', ''ins'']) []
                           [Element ''span'' None [] [Text (js ''bar'')]]]]]])
   = Root [Element ''div'' (Some [''expressive-code'']) []
            [Element ''pre'' None [(''dataLanguage'', ''js'')]
                [Element ''code'' (Some [''language-diff'']) []
                    [Element ''div'' (Some [''ec-line'', ''ins'']) []
                        [Element ''span'' None [] [Text (js ''+foo'')]],
                     Element ''div'' (Some [''ec-line'', ''del'', ''ins'']) []
                        [Element ''span'' None [] [Text (js ''+bar'')]]]]]]
   \<and> improveExpressiveCodeHandling
     (Root [Element ''div'' (Some [''expressive-code'']) []
               [Element ''pre'' None [(''dataLanguage'', ''js'')]
                   [Element ''code'' None []
                       [Element ''div'' (Some [''ec-line'', ''ins'']) []
                           [Element ''div'' (Some [''expressive-code'']) []
                               [Element ''figcaption'' None []
                                   [Element ''span'' (Some [''sr-only'']) []
                                       [Text (js ''a'')],
                                    Element ''span'' (Some [''sr-only'']) []
                                       [Text (js ''foo'')],
                                    Element ''span'' None [] [Text (js ''bar'')]]]]]]]])
   = Root [Element ''div'' (Some [''expressive-code'']) []
            [Element ''pre'' None [(''dataLanguage'', ''js'')]
                [Element ''code'' (Some [''language-diff'']) []
                    [Element ''div'' (Some [''ec-line'', ''ins'']) []
                        [Element ''div'' (Some [''expressive-code'']) []
                            [Element ''figcaption'' None []
                                [Element ''span'' None [] [Text (js ''bar'')]]]]]]]]"
  by (simp add: ec_eval js_def)

subsection \<open>A declared language and no flagged line\<close>

text \<open>
  Claim C5, as amended. Take a rich code sample widget anywhere in the tree that neither
  lies inside another such widget nor holds one, and let \<^verbatim>\<open>pre\<close> and \<^verbatim>\<open>code\<close> be the
  elements that the normalizer finds in it once the label is out of its caption. When
  \<^verbatim>\<open>pre\<close> declares \<^verbatim>\<open>python\<close> and \<^verbatim>\<open>code\<close> has no flagged line, the tree that leaves the
  normalizer holds the widget at the same place, and the widget's \<^verbatim>\<open>code\<close> element keeps
  the class tokens it had and carries \<^verbatim>\<open>language-python\<close> after them, so that it carries
  \<^verbatim>\<open>language-diff\<close> only if it did before. When there is no \<^verbatim>\<open>pre\<close> element, or it
  declares no language or an empty one, or there is no \<^verbatim>\<open>code\<close> element, the widget
  leaves the normalizer as it was but for the label of its caption.
\<close>

theorem language_class_attached:
  "(lone_widget_at tree path inst
      \<and> select sel_pre (caption_step inst) = Some pre
      \<and> dataLanguage pre = Some ''python''
      \<and> select sel_code (caption_step inst) = Some (Element t c p cs)
      \<and> filter (matches sel_diff_line) cs = []
    \<longrightarrow> (\<exists>inst'. node_at (rootChildren (improveExpressiveCodeHandling tree)) path = Some inst'
          \<and> select sel_code inst'
            = Some (Element t
                (Some ((case c of Some l \<Rightarrow> l | None \<Rightarrow> []) @ [''language-python''])) p cs)))
   \<and> (lone_widget_at tree path inst
      \<and> (select sel_pre (caption_step inst) = None
         \<or> (\<exists>pre. select sel_pre (caption_step inst) = Some pre
               \<and> (dataLanguage pre = None \<or> dataLanguage pre = Some []))
         \<or> select sel_code (caption_step inst) = None)
    \<longrightarrow> node_at (rootChildren (improveExpressiveCodeHandling tree)) path
        = Some (caption_step inst))"
proof (intro conjI impI)
  assume a: "lone_widget_at tree path inst
      \<and> select sel_pre (caption_step inst) = Some pre
      \<and> dataLanguage pre = Some ''python''
      \<and> select sel_code (caption_step inst) = Some (Element t c p cs)
      \<and> filter (matches sel_diff_line) cs = []"
  then have "select sel_code (code_step (caption_step inst))
      = Some (annotate_code ''python'' (Element t c p cs))"
    using code_step_select[of "caption_step inst" pre "''python''" "Element t c p cs"] by simp
  with a have "select sel_code (ec_instance inst)
        = Some (Element t
            (Some ((case c of Some l \<Rightarrow> l | None \<Rightarrow> []) @ [''language-python''])) p cs)"
    by (simp add: ec_instance_def annotate_code_def)
  with a lone_widget_handled[of tree path inst]
  show "\<exists>inst'. node_at (rootChildren (improveExpressiveCodeHandling tree)) path = Some inst'
          \<and> select sel_code inst'
            = Some (Element t
                (Some ((case c of Some l \<Rightarrow> l | None \<Rightarrow> []) @ [''language-python''])) p cs)"
    by blast
next
  assume a: "lone_widget_at tree path inst
      \<and> (select sel_pre (caption_step inst) = None
         \<or> (\<exists>pre. select sel_pre (caption_step inst) = Some pre
               \<and> (dataLanguage pre = None \<or> dataLanguage pre = Some []))
         \<or> select sel_code (caption_step inst) = None)"
  then have "ec_instance inst = caption_step inst"
    unfolding ec_instance_def using code_step_unchanged[of "caption_step inst"] by blast
  with a lone_widget_handled[of tree path inst]
  show "node_at (rootChildren (improveExpressiveCodeHandling tree)) path
        = Some (caption_step inst)"
    by simp
qed

text \<open>
  Two widgets below a wrapper element: a terminal frame in \<^verbatim>\<open>python\<close>, whose caption
  loses its label, and a sample without a declared language, which loses the label of
  its caption and nothing else.
\<close>

theorem language_class_attached_witness:
  "lone_widget_at
     (Root [Element ''main'' None []
               [Element ''div'' (Some [''expressive-code'']) []
                   [Element ''figure'' (Some [''frame'']) []
                       [Element ''figcaption'' (Some [''header'']) []
                           [Element ''span'' (Some [''title'']) [] [Text (js ''a.py'')],
                            Element ''span'' (Some [''sr-only'']) []
                               [Text (js ''Terminal window'')]],
                        Element ''pre'' None [(''dataLanguage'', ''python'')]
                           [Element ''code'' None []
                               [Element ''div'' (Some [''ec-line'']) []
                                   [Element ''span'' None [] [Text (js ''pass'')]]]]]],
                Element ''div'' (Some [''expressive-code'']) []
                   [Element ''figcaption'' None []
                       [Element ''span'' (Some [''sr-only'']) []
                           [Text (js ''Terminal window'')]],
                    Element ''pre'' None [] [Element ''code'' None [] [Text (js ''pass'')]]]]])
     [0, 0]
     (Element ''div'' (Some [''expressive-code'']) []
         [Element ''figure'' (Some [''frame'']) []
             [Element ''figcaption'' (Some [''header'']) []
                 [Element ''span'' (Some [''title'']) [] [Text (js ''a.py'')],
                  Element ''span'' (Some [''sr-only'']) [] [Text (js ''Terminal window'')]],
              Element ''pre'' None [(''dataLanguage'', ''python'')]
                 [Element ''code'' None []
                     [Element ''div'' (Some [''ec-line'']) []
                         [Element ''span'' None [] [Text (js ''pass'')]]]]]])
   \<and> select sel_pre (caption_step
     (Element ''div'' (Some [''expressive-code'']) []
         [Element ''figure'' (Some [''frame'']) []
             [Element ''figcaption'' (Some [''header'']) []
                 [Element ''span'' (Some [''title'']) [] [Text (js ''a.py'')],
                  Element ''span'' (Some [''sr-only'']) [] [Text (js ''Terminal window'')]],
              Element ''pre'' None [(''dataLanguage'', ''python'')]
                 [Element ''code'' None []
                     [Element ''div'' (Some [''ec-line'']) []
                         [Element ''span'' None [] [Text (js ''pass'')]]]]]]))
   = Some (Element ''pre'' None [(''dataLanguage'', ''python'')]
            [Element ''code'' None []
                [Element ''div'' (Some [''ec-line'']) []
                    [Element ''span'' None [] [Text (js ''pass'')]]]])
   \<and> dataLanguage
     (Element ''pre'' None [(''dataLanguage'', ''python'')]
         [Element ''code'' None []
             [Element ''div'' (Some [''ec-line'']) []
                 [Element ''span'' None [] [Text (js ''pass'')]]]]) = Some ''python''
   \<and> select sel_code (caption_step
     (Element ''div'' (Some [''expressive-code'']) []
         [Element ''figure'' (Some [''frame'']) []
             [Element ''figcaption'' (Some [''header'']) []
                 [Element ''span'' (Some [''title'']) [] [Text (js ''a.py'')],
                  Element ''span'' (Some [''sr-only'']) [] [Text (js ''Terminal window'')]],
              Element ''pre'' None [(''dataLanguage'', ''python'')]
                 [Element ''code'' None []
                     [Element ''div'' (Some [''ec-line'']) []
                         [Element ''span'' None [] [Text (js ''pass'')]]]]]]))
   = Some (Element ''code'' None []
            [Element ''div'' (Some [''ec-line'']) []
                [Element ''span'' None [] [Text (js ''pass'')]]])
   \<and> filter (matches sel_diff_line)
     [Element ''div'' (Some [''ec-line'']) []
         [Element ''span'' None [] [Text (js ''pass'')]]] = []
   \<and> node_at (rootChildren (improveExpressiveCodeHandling
     (Root [Element ''main'' None []
               [Element ''div'' (Some [''expressive-code'']) []
                   [Element ''figure'' (Some [''frame'']) []
                       [Element ''figcaption'' (Some [''header'']) []
                           [Element ''span'' (Some [''title'']) [] [Text (js ''a.py'')],
                            Element ''span'' (Some [''sr-only'']) []
                               [Text (js ''Terminal window'')]],
                        Element ''pre'' None [(''dataLanguage'', ''python'')]
                           [Element ''code'' None []
                               [Element ''div'' (Some [''ec-line'']) []
                                   [Element ''span'' None [] [Text (js ''pass'')]]]]]],
                Element ''div'' (Some [''expressive-code'']) []
                   [Element ''figcaption'' None []
                       [Element ''span'' (Some [''sr-only'']) []
                           [Text (js ''Terminal window'')]],
                    Element ''pre'' None [] [Element ''code'' None [] [Text (js ''pass'')]]]]])))
     [0, 0]
   = Some (Element ''div'' (Some [''expressive-code'']) []
            [Element ''figure'' (Some [''frame'']) []
                [Element ''figcaption'' (Some [''header'']) []
                    [Element ''span'' (Some [''title'']) [] [Text (js ''a.py'')]],
                 Element ''pre'' None [(''dataLanguage'', ''python'')]
                    [Element ''code'' (Some [''language-python'']) []
                        [Element ''div'' (Some [''ec-line'']) []
                            [Element ''span'' None [] [Text (js ''pass'')]]]]]])
   \<and> select sel_code
     (Element ''div'' (Some [''expressive-code'']) []
         [Element ''figure'' (Some [''frame'']) []
             [Element ''figcaption'' (Some [''header'']) []
                 [Element ''span'' (Some [''title'']) [] [Text (js ''a.py'')]],
              Element ''pre'' None [(''dataLanguage'', ''python'')]
                 [Element ''code'' (Some [''language-python'']) []
                     [Element ''div'' (Some [''ec-line'']) []
                         [Element ''span'' None [] [Text (js ''pass'')]]]]]])
   = Some (Element ''code'' (Some [''language-python'']) []
            [Element ''div'' (Some [''ec-line'']) []
                [Element ''span'' None [] [Text (js ''pass'')]]])
   \<and> lone_widget_at
     (Root [Element ''main'' None []
               [Element ''div'' (Some [''expressive-code'']) []
                   [Element ''figure'' (Some [''frame'']) []
                       [Element ''figcaption'' (Some [''header'']) []
                           [Element ''span'' (Some [''title'']) [] [Text (js ''a.py'')],
                            Element ''span'' (Some [''sr-only'']) []
                               [Text (js ''Terminal window'')]],
                        Element ''pre'' None [(''dataLanguage'', ''python'')]
                           [Element ''code'' None []
                               [Element ''div'' (Some [''ec-line'']) []
                                   [Element ''span'' None [] [Text (js ''pass'')]]]]]],
                Element ''div'' (Some [''expressive-code'']) []
                   [Element ''figcaption'' None []
                       [Element ''span'' (Some [''sr-only'']) []
                           [Text (js ''Terminal window'')]],
                    Element ''pre'' None [] [Element ''code'' None [] [Text (js ''pass'')]]]]])
     [0, 1]
     (Element ''div'' (Some [''expressive-code'']) []
         [Element ''figcaption'' None []
             [Element ''span'' (Some [''sr-only'']) [] [Text (js ''Terminal window'')]],
          Element ''pre'' None [] [Element ''code'' None [] [Text (js ''pass'')]]])
   \<and> select sel_pre (caption_step
     (Element ''div'' (Some [''expressive-code'']) []
         [Element ''figcaption'' None []
             [Element ''span'' (Some [''sr-only'']) [] [Text (js ''Terminal window'')]],
          Element ''pre'' None [] [Element ''code'' None [] [Text (js ''pass'')]]]))
   = Some (Element ''pre'' None [] [Element ''code'' None [] [Text (js ''pass'')]])
   \<and> dataLanguage
     (Element ''pre'' None [] [Element ''code'' None [] [Text (js ''pass'')]]) = None
   \<and> caption_step
     (Element ''div'' (Some [''expressive-code'']) []
         [Element ''figcaption'' None []
             [Element ''span'' (Some [''sr-only'']) [] [Text (js ''Terminal window'')]],
          Element ''pre'' None [] [Element ''code'' None [] [Text (js ''pass'')]]])
   = Element ''div'' (Some [''expressive-code'']) []
        [Element ''figcaption'' None [] [],
         Element ''pre'' None [] [Element ''code'' None [] [Text (js ''pass'')]]]
   \<and> node_at (rootChildren (improveExpressiveCodeHandling
     (Root [Element ''main'' None []
               [Element ''div'' (Some [''expressive-code'']) []
                   [Element ''figure'' (Some [''frame'']) []
                       [Element ''figcaption'' (Some [''header'']) []
                           [Element ''span'' (Some [''title'']) [] [Text (js ''a.py'')],
                            Element ''span'' (Some [''sr-only'']) []
                               [Text (js ''Terminal window'')]],
                        Element ''pre'' None [(''dataLanguage'', ''python'')]
                           [Element ''code'' None []
                               [Element ''div'' (Some [''ec-line'']) []
                                   [Element ''span'' None [] [Text (js ''pass'')]]]]]],
                Element ''div'' (Some [''expressive-code'']) []
                   [Element ''figcaption'' None []
                       [Element ''span'' (Some [''sr-only'']) []
                           [Text (js ''Terminal window'')]],
                    Element ''pre'' None [] [Element ''code'' None [] [Text (js ''pass'')]]]]])))
     [0, 1]
   = Some (Element ''div'' (Some [''expressive-code'']) []
            [Element ''figcaption'' None [] [],
             Element ''pre'' None [] [Element ''code'' None [] [Text (js ''pass'')]]])"
proof -
  let ?line = "Element ''div'' (Some [''ec-line'']) []
                  [Element ''span'' None [] [Text (js ''pass'')]]"
  let ?code = "Element ''code'' None [] [?line]"
  let ?pre = "Element ''pre'' None [(''dataLanguage'', ''python'')] [?code]"
  let ?inst = "Element ''div'' (Some [''expressive-code'']) []
                  [Element ''figure'' (Some [''frame'']) []
                      [Element ''figcaption'' (Some [''header'']) []
                          [Element ''span'' (Some [''title'']) [] [Text (js ''a.py'')],
                           Element ''span'' (Some [''sr-only'']) []
                              [Text (js ''Terminal window'')]],
                       ?pre]]"
  let ?inst' = "Element ''div'' (Some [''expressive-code'']) []
                   [Element ''figure'' (Some [''frame'']) []
                       [Element ''figcaption'' (Some [''header'']) []
                           [Element ''span'' (Some [''title'']) [] [Text (js ''a.py'')]],
                        Element ''pre'' None [(''dataLanguage'', ''python'')]
                 [Element ''code'' (Some [''language-python'']) [] [?line]]]]"
  let ?pre2 = "Element ''pre'' None [] [Element ''code'' None [] [Text (js ''pass'')]]"
  let ?inst2 = "Element ''div'' (Some [''expressive-code'']) []
                   [Element ''figcaption'' None []
                       [Element ''span'' (Some [''sr-only'']) []
                           [Text (js ''Terminal window'')]],
                    ?pre2]"
  let ?inst2' = "Element ''div'' (Some [''expressive-code'']) [] [Element ''figcaption'' None [] [], ?pre2]"
  let ?tree = "Root [Element ''main'' None [] [?inst, ?inst2]]"
  have h0: "lone_widget_at ?tree [0, 0] ?inst"
    by (simp add: lone_widget_at_def selectAll_def matches_def is_element_def
        sel_expressive_code_def)
  have c: "caption_step ?inst = Element ''div'' (Some [''expressive-code'']) []
        [Element ''figure'' (Some [''frame'']) []
           [Element ''figcaption'' (Some [''header'']) []
              [Element ''span'' (Some [''title'']) [] [Text (js ''a.py'')]],
            ?pre]]"
    by (simp add: caption_step_def strip_label_def matches_def is_element_def
        sel_figcaption_def sel_span_sr_only_def)
  have h1: "select sel_pre (caption_step ?inst) = Some ?pre"
    unfolding c by (simp add: select_def matches_def is_element_def sel_pre_def)
  have h2: "dataLanguage ?pre = Some ''python''"
    by (simp add: dataLanguage_def)
  have h3: "select sel_code (caption_step ?inst) = Some ?code"
    unfolding c by (simp add: select_def matches_def is_element_def sel_code_def)
  have h4: "filter (matches sel_diff_line) [?line] = []"
    by (simp add: matches_def is_element_def sel_diff_line_def)
  have g0: "lone_widget_at ?tree [0, 1] ?inst2"
    by (simp add: lone_widget_at_def selectAll_def matches_def is_element_def
        sel_expressive_code_def)
  have c2: "caption_step ?inst2 = ?inst2'"
    by (simp add: caption_step_def strip_label_def matches_def is_element_def
        sel_figcaption_def sel_span_sr_only_def)
  have g1: "select sel_pre (caption_step ?inst2) = Some ?pre2"
    unfolding c2 by (simp add: select_def matches_def is_element_def sel_pre_def)
  have g2: "dataLanguage ?pre2 = None"
    by (simp add: dataLanguage_def)
  from language_class_attached[of ?tree "[0, 0]" ?inst ?pre "''code''" None "[]" "[?line]"]
    h0 h1 h2 h3 h4
  obtain inst' where
    r: "node_at (rootChildren (improveExpressiveCodeHandling ?tree)) [0, 0] = Some inst'"
       "select sel_code inst'
        = Some (Element ''code'' (Some [''language-python'']) [] [?line])"
    by auto
  have e: "node_at (rootChildren (improveExpressiveCodeHandling ?tree)) [0, 0] = Some ?inst'"
    by (simp add: ec_eval)
  with r have r1: "select sel_code ?inst'
      = Some (Element ''code'' (Some [''language-python'']) [] [?line])"
    by simp
  from language_class_attached[of ?tree "[0, 1]" ?inst2] g0 g1 g2
  have "node_at (rootChildren (improveExpressiveCodeHandling ?tree)) [0, 1]
      = Some (caption_step ?inst2)" by blast
  then have r2: "node_at (rootChildren (improveExpressiveCodeHandling ?tree)) [0, 1]
      = Some ?inst2'" unfolding c2 .
  from h0 h1 h2 h3 h4 e r1 g0 g1 g2 c2 r2 show ?thesis by simp
qed

text \<open>
  Claim C5 as stated fails: a \<^verbatim>\<open>code\<close> element that comes with \<^verbatim>\<open>language-diff\<close> keeps
  that token beside \<^verbatim>\<open>language-python\<close>; and where the \<^verbatim>\<open>code\<close> element found for a
  widget that declares \<^verbatim>\<open>python\<close> lies in a widget within that declares \<^verbatim>\<open>diff\<close>, it
  is handled for both and ends with both tokens.
\<close>

theorem language_class_beside_diff_counterexample:
  "improveExpressiveCodeHandling
     (Root [Element ''div'' (Some [''expressive-code'']) []
               [Element ''pre'' None [(''dataLanguage'', ''python'')]
                   [Element ''code'' (Some [''language-diff'']) []
                       [Element ''div'' (Some [''ec-line'']) []
                           [Element ''span'' None [] [Text (js ''pass'')]]]]]])
   = Root [Element ''div'' (Some [''expressive-code'']) []
            [Element ''pre'' None [(''dataLanguage'', ''python'')]
                [Element ''code'' (Some [''language-diff'', ''language-python'']) []
                    [Element ''div'' (Some [''ec-line'']) []
                        [Element ''span'' None [] [Text (js ''pass'')]]]]]]
   \<and> improveExpressiveCodeHandling
     (Root [Element ''div'' (Some [''expressive-code'']) []
               [Element ''pre'' None [(''dataLanguage'', ''python'')] [],
                Element ''div'' (Some [''expressive-code'']) []
                   [Element ''pre'' None [(''dataLanguage'', ''diff'')] [],
                    Element ''code'' None [] [Text (js ''pass'')]]]])
   = Root [Element ''div'' (Some [''expressive-code'']) []
            [Element ''pre'' None [(''dataLanguage'', ''python'')] [],
             Element ''div'' (Some [''expressive-code'']) []
                [Element ''pre'' None [(''dataLanguage'', ''diff'')] [],
                 Element ''code'' (Some [''language-python'', ''language-diff'']) []
                    [Text (js ''pass'')]]]]"
  by (simp add: ec_eval)

section \<open>What the file-tree label stripper leaves in the tree\<close>


















end
